theory Spec2Isabelle
  imports Complex_Main "HOL-Library.AList"
begin

section \<open>Vectors\<close>

text \<open>
  A numpy array of shape (3,) and dtype float is a triple of numbers. The arithmetic is
  that of the real numbers: rounding, overflow, infinities and NaN of IEEE doubles are not
  part of this development.
\<close>

datatype vec3 = Vec3 (vx: real) (vy: real) (vz: real)

instantiation vec3 :: ab_group_add
begin

definition zero_vec3 :: vec3 where
  "zero_vec3 = Vec3 0 0 0"

definition plus_vec3 :: "vec3 \<Rightarrow> vec3 \<Rightarrow> vec3" where
  "plus_vec3 a b = Vec3 (vx a + vx b) (vy a + vy b) (vz a + vz b)"

definition minus_vec3 :: "vec3 \<Rightarrow> vec3 \<Rightarrow> vec3" where
  "minus_vec3 a b = Vec3 (vx a - vx b) (vy a - vy b) (vz a - vz b)"

definition uminus_vec3 :: "vec3 \<Rightarrow> vec3" where
  "uminus_vec3 a = Vec3 (- vx a) (- vy a) (- vz a)"

instance
  by standard
    (simp_all add: zero_vec3_def plus_vec3_def minus_vec3_def uminus_vec3_def)

end

text \<open>\<open>c * v\<close> and \<open>v / c\<close> for a scalar \<open>c\<close>, componentwise as numpy broadcasts them.\<close>

definition smul :: "real \<Rightarrow> vec3 \<Rightarrow> vec3" where
  "smul c v = Vec3 (c * vx v) (c * vy v) (c * vz v)"

definition sdiv :: "vec3 \<Rightarrow> real \<Rightarrow> vec3" where
  "sdiv v c = Vec3 (vx v / c) (vy v / c) (vz v / c)"

text \<open>\<open>np.linalg.norm\<close> of a vector: the Euclidean norm.\<close>

definition norm3 :: "vec3 \<Rightarrow> real" where
  "norm3 v = sqrt ((vx v)\<^sup>2 + (vy v)\<^sup>2 + (vz v)\<^sup>2)"

section \<open>Bodies\<close>

text \<open>
  The class \<open>Object\<close>: name, mass, position, velocity and acceleration. The list
  \<open>bodies\<close> holds distinct objects, each with arrays of its own (the constructor copies
  its arguments with \<open>np.array\<close>), so the list of objects mutated in place is a list of
  records passed along and returned.
\<close>

record body =
  name :: string
  mass :: real
  position :: vec3
  velocity :: vec3
  acceleration :: vec3

section \<open>Force evaluation (method.py, compute\_gravitational\_accelerations)\<close>

text \<open>The constant \<open>G = 6.67430e-20\<close> of the function.\<close>

definition G :: real where
  "G = 6.67430 / 10 ^ 20"

text \<open>
  The body of the inner loop for the pair \<open>(i, j)\<close>: the two \<open>continue\<close> branches leave
  \<open>total_acc\<close> as it is, the last line adds \<open>G * obj_j.mass * r_vec / r_mag**3\<close>.
\<close>

definition acc_step :: "body list \<Rightarrow> nat \<Rightarrow> vec3 \<Rightarrow> nat \<Rightarrow> vec3" where
  "acc_step bodies i total_acc j =
     (if i = j then total_acc
      else
        let r_vec = position (bodies ! j) - position (bodies ! i);
            r_mag = norm3 r_vec
        in if r_mag = 0 then total_acc
           else total_acc + sdiv (smul (G * mass (bodies ! j)) r_vec) (r_mag ^ 3))"

text \<open>The inner loop over \<open>j\<close>, started from \<open>np.zeros(3)\<close>.\<close>

definition total_acc_of :: "body list \<Rightarrow> nat \<Rightarrow> vec3" where
  "total_acc_of bodies i = foldl (acc_step bodies i) 0 [0..<length bodies]"

text \<open>One round of the outer loop: \<open>obj_i.acceleration = total_acc\<close>.\<close>

definition set_acceleration :: "body list \<Rightarrow> nat \<Rightarrow> body list" where
  "set_acceleration bodies i =
     bodies[i := (bodies ! i)\<lparr>acceleration := total_acc_of bodies i\<rparr>]"

definition compute_gravitational_accelerations :: "body list \<Rightarrow> body list" where
  "compute_gravitational_accelerations bodies =
     foldl set_acceleration bodies [0..<length bodies]"

text \<open>
  The same function with the division made explicit. numpy does not raise when an array is
  divided by a zero scalar (it warns and stores non-finite components); here such a
  division is the fault \<open>DivideByZero\<close>, so that "no division by zero is performed" is a
  statement about the result.
\<close>

datatype py_error = ValueError | EOFError | DivideByZero

definition sdiv_checked :: "vec3 \<Rightarrow> real \<Rightarrow> py_error + vec3" where
  "sdiv_checked v c = (if c = 0 then Inl DivideByZero else Inr (sdiv v c))"

definition acc_step_checked ::
  "body list \<Rightarrow> nat \<Rightarrow> py_error + vec3 \<Rightarrow> nat \<Rightarrow> py_error + vec3" where
  "acc_step_checked bodies i st j =
     (case st of
        Inl e \<Rightarrow> Inl e
      | Inr total_acc \<Rightarrow>
          if i = j then Inr total_acc
          else
            let r_vec = position (bodies ! j) - position (bodies ! i);
                r_mag = norm3 r_vec
            in if r_mag = 0 then Inr total_acc
               else (case sdiv_checked (smul (G * mass (bodies ! j)) r_vec) (r_mag ^ 3) of
                       Inl e \<Rightarrow> Inl e
                     | Inr a \<Rightarrow> Inr (total_acc + a)))"

definition total_acc_checked :: "body list \<Rightarrow> nat \<Rightarrow> py_error + vec3" where
  "total_acc_checked bodies i = foldl (acc_step_checked bodies i) (Inr 0) [0..<length bodies]"

definition set_acceleration_checked ::
  "py_error + body list \<Rightarrow> nat \<Rightarrow> py_error + body list" where
  "set_acceleration_checked st i =
     (case st of
        Inl e \<Rightarrow> Inl e
      | Inr bodies \<Rightarrow>
          (case total_acc_checked bodies i of
             Inl e \<Rightarrow> Inl e
           | Inr a \<Rightarrow> Inr (bodies[i := (bodies ! i)\<lparr>acceleration := a\<rparr>])))"

definition compute_gravitational_accelerations_checked ::
  "body list \<Rightarrow> py_error + body list" where
  "compute_gravitational_accelerations_checked bodies =
     foldl set_acceleration_checked (Inr bodies) [0..<length bodies]"

section \<open>Integration (method.py, verlet\_integration)\<close>

text \<open>Step 2, one body: \<open>obj.position += obj.velocity * dt + 0.5 * old_accelerations[i] * dt**2\<close>.\<close>

definition update_position :: "real \<Rightarrow> vec3 list \<Rightarrow> body list \<Rightarrow> nat \<Rightarrow> body list" where
  "update_position dt old_accelerations bodies i =
     bodies[i := (bodies ! i)\<lparr>position :=
        position (bodies ! i)
          + (smul dt (velocity (bodies ! i)) + smul (dt\<^sup>2) (smul 0.5 (old_accelerations ! i)))\<rparr>]"

text \<open>Step 4, one body: \<open>obj.velocity += 0.5 * (old_accelerations[i] + obj.acceleration) * dt\<close>.\<close>

definition update_velocity :: "real \<Rightarrow> vec3 list \<Rightarrow> body list \<Rightarrow> nat \<Rightarrow> body list" where
  "update_velocity dt old_accelerations bodies i =
     bodies[i := (bodies ! i)\<lparr>velocity :=
        velocity (bodies ! i)
          + smul dt (smul 0.5 (old_accelerations ! i + acceleration (bodies ! i)))\<rparr>]"

definition verlet_integration :: "body list \<Rightarrow> real \<Rightarrow> body list" where
  "verlet_integration bodies dt =
     (let old_accelerations = map acceleration bodies;
          bodies1 = foldl (update_position dt old_accelerations) bodies [0..<length bodies];
          bodies2 = compute_gravitational_accelerations bodies1
      in foldl (update_velocity dt old_accelerations) bodies2 [0..<length bodies2])"

section \<open>Collisions (method.py, check\_and\_merge\_collisions)\<close>

text \<open>
  The merge of \<open>bodies[j]\<close> into \<open>bodies[i]\<close>: the new fields of body \<open>i\<close>. The two
  quotients by \<open>M\<close> are those of the code where \<open>M\<close> is not zero. Where the two masses sum
  to zero numpy stores non-finite components, which the real numbers do not have, and
  \<open>sdiv\<close> is the quotient by zero of HOL: the results below on the position and the
  velocity of a survivor are stated for a mass sum that is not zero, and the checked copy
  of the pass, further down, marks the other case as a fault.
\<close>

definition merged :: "body \<Rightarrow> body \<Rightarrow> body" where
  "merged obj_i obj_j =
     (let m1 = mass obj_i;
          m2 = mass obj_j;
          M = m1 + m2;
          new_position = sdiv (smul m1 (position obj_i) + smul m2 (position obj_j)) M;
          new_velocity = sdiv (smul m1 (velocity obj_i) + smul m2 (velocity obj_j)) M;
          new_name = name obj_i @ ''+'' @ name obj_j
      in obj_i\<lparr>position := new_position, velocity := new_velocity,
                mass := M, name := new_name\<rparr>)"

text \<open>\<open>bodies.pop(j)\<close> for an index in range: the later elements move down by one.\<close>

definition pop :: "nat \<Rightarrow> 'a list \<Rightarrow> 'a list" where
  "pop j xs = take j xs @ drop (Suc j) xs"

text \<open>The inner \<open>while j < len(bodies)\<close>: after a merge \<open>j\<close> stays where it is.\<close>

function inner_loop :: "real \<Rightarrow> nat \<Rightarrow> nat \<Rightarrow> body list \<Rightarrow> body list" where
  "inner_loop collision_distance i j bodies =
     (if j < length bodies then
        (let dist = norm3 (position (bodies ! i) - position (bodies ! j))
         in if dist < collision_distance then
              inner_loop collision_distance i j
                (pop j (bodies[i := merged (bodies ! i) (bodies ! j)]))
            else inner_loop collision_distance i (j + 1) bodies)
      else bodies)"
  by pat_completeness auto
termination
  by (relation "measure (\<lambda>(cd, i, j, bodies). length bodies - j)") (auto simp: pop_def)

text \<open>
  The inner loop never lengthens the list, which is what makes the outer loop end.
\<close>

declare inner_loop.simps [simp del]

lemma length_pop: "j < length xs \<Longrightarrow> length (pop j xs) = length xs - 1"
  by (simp add: pop_def)

lemma length_inner_loop_le: "length (inner_loop cd i j bs) \<le> length bs"
proof (induction cd i j bs rule: inner_loop.induct)
  case (1 cd i j bs)
  show ?case
  proof (cases "j < length bs")
    case False
    then show ?thesis by (simp add: inner_loop.simps [of cd i j bs])
  next
    case True
    show ?thesis
    proof (cases "norm3 (position (bs ! i) - position (bs ! j)) < cd")
      case hit: True
      have "length (inner_loop cd i j (pop j (bs[i := merged (bs ! i) (bs ! j)])))
              \<le> length (pop j (bs[i := merged (bs ! i) (bs ! j)]))"
        using "1.IH"(1) [OF True refl hit] .
      also have "\<dots> \<le> length bs" using True by (simp add: length_pop)
      finally show ?thesis using True hit by (simp add: inner_loop.simps [of cd i j bs])
    next
      case miss: False
      have "length (inner_loop cd i (j + 1) bs) \<le> length bs"
        using "1.IH"(2) [OF True refl miss] .
      then show ?thesis using True miss by (simp add: inner_loop.simps [of cd i j bs])
    qed
  qed
qed

text \<open>The outer \<open>while i < len(bodies)\<close>.\<close>

function outer_loop :: "real \<Rightarrow> nat \<Rightarrow> body list \<Rightarrow> body list" where
  "outer_loop collision_distance i bodies =
     (if i < length bodies then
        outer_loop collision_distance (i + 1) (inner_loop collision_distance i (i + 1) bodies)
      else bodies)"
  by pat_completeness auto
termination
proof (relation "measure (\<lambda>(cd, i, bodies). length bodies - i)")
  show "wf (measure (\<lambda>(cd, i, bodies). length bodies - i))" by simp
next
  fix collision_distance :: real and i :: nat and bodies :: "body list"
  assume "i < length bodies"
  moreover have "length (inner_loop collision_distance i (i + 1) bodies) \<le> length bodies"
    by (rule length_inner_loop_le)
  ultimately show "((collision_distance, i + 1, inner_loop collision_distance i (i + 1) bodies),
          (collision_distance, i, bodies)) \<in> measure (\<lambda>(cd, i, bodies). length bodies - i)"
    by simp
qed

declare outer_loop.simps [simp del]

definition check_and_merge_collisions :: "body list \<Rightarrow> real \<Rightarrow> body list" where
  "check_and_merge_collisions bodies collision_distance = outer_loop collision_distance 0 bodies"

text \<open>
  The same pass with the two divisions by \<open>M\<close> checked, as the division of the force
  evaluation above: where the code divides by a mass sum of zero (numpy warns, stores
  non-finite components and goes on) the checked pass ends with \<open>DivideByZero\<close>.
\<close>

definition merged_checked :: "body \<Rightarrow> body \<Rightarrow> py_error + body" where
  "merged_checked obj_i obj_j =
     (let m1 = mass obj_i;
          m2 = mass obj_j;
          M = m1 + m2
      in case sdiv_checked (smul m1 (position obj_i) + smul m2 (position obj_j)) M of
           Inl e \<Rightarrow> Inl e
         | Inr new_position \<Rightarrow>
             (case sdiv_checked (smul m1 (velocity obj_i) + smul m2 (velocity obj_j)) M of
                Inl e \<Rightarrow> Inl e
              | Inr new_velocity \<Rightarrow>
                  Inr (obj_i\<lparr>position := new_position, velocity := new_velocity,
                            mass := M, name := name obj_i @ ''+'' @ name obj_j\<rparr>)))"

function inner_loop_checked ::
  "real \<Rightarrow> nat \<Rightarrow> nat \<Rightarrow> body list \<Rightarrow> py_error + body list" where
  "inner_loop_checked collision_distance i j bodies =
     (if j < length bodies then
        (let dist = norm3 (position (bodies ! i) - position (bodies ! j))
         in if dist < collision_distance then
              (case merged_checked (bodies ! i) (bodies ! j) of
                 Inl e \<Rightarrow> Inl e
               | Inr obj \<Rightarrow>
                   inner_loop_checked collision_distance i j (pop j (bodies[i := obj])))
            else inner_loop_checked collision_distance i (j + 1) bodies)
      else Inr bodies)"
  by pat_completeness auto
termination
  by (relation "measure (\<lambda>(cd, i, j, bodies). length bodies - j)") (auto simp: pop_def)

declare inner_loop_checked.simps [simp del]

lemma length_inner_loop_checked_le:
  "inner_loop_checked cd i j bs = Inr bs' \<Longrightarrow> length bs' \<le> length bs"
proof (induction cd i j bs rule: inner_loop_checked.induct)
  case (1 cd i j bs)
  show ?case
  proof (cases "j < length bs")
    case False
    then show ?thesis using "1.prems" by (simp add: inner_loop_checked.simps [of cd i j bs])
  next
    case True
    show ?thesis
    proof (cases "norm3 (position (bs ! i) - position (bs ! j)) < cd")
      case hit: True
      from "1.prems" True hit obtain obj where
        m: "merged_checked (bs ! i) (bs ! j) = Inr obj"
        and r: "inner_loop_checked cd i j (pop j (bs[i := obj])) = Inr bs'"
        by (auto simp: inner_loop_checked.simps [of cd i j bs] split: sum.splits)
      have "length bs' \<le> length (pop j (bs[i := obj]))"
        using "1.IH"(1) [OF True refl hit m r] .
      also have "\<dots> \<le> length bs" using True by (simp add: length_pop)
      finally show ?thesis .
    next
      case miss: False
      have "inner_loop_checked cd i (j + 1) bs = Inr bs'"
        using "1.prems" True miss by (simp add: inner_loop_checked.simps [of cd i j bs])
      then show ?thesis using "1.IH"(2) [OF True refl miss] by simp
    qed
  qed
qed

function outer_loop_checked :: "real \<Rightarrow> nat \<Rightarrow> body list \<Rightarrow> py_error + body list" where
  "outer_loop_checked collision_distance i bodies =
     (if i < length bodies then
        (case inner_loop_checked collision_distance i (i + 1) bodies of
           Inl e \<Rightarrow> Inl e
         | Inr bodies1 \<Rightarrow> outer_loop_checked collision_distance (i + 1) bodies1)
      else Inr bodies)"
  by pat_completeness auto
termination
proof (relation "measure (\<lambda>(cd, i, bodies). length bodies - i)")
  show "wf (measure (\<lambda>(cd, i, bodies). length bodies - i))" by simp
next
  fix collision_distance :: real and i :: nat and bodies bodies1 :: "body list"
  assume "i < length bodies"
    and "inner_loop_checked collision_distance i (i + 1) bodies = Inr bodies1"
  then show "((collision_distance, i + 1, bodies1), (collision_distance, i, bodies))
      \<in> measure (\<lambda>(cd, i, bodies). length bodies - i)"
    using length_inner_loop_checked_le [of collision_distance i "i + 1" bodies bodies1] by simp
qed

declare outer_loop_checked.simps [simp del]

definition check_and_merge_collisions_checked :: "body list \<Rightarrow> real \<Rightarrow> py_error + body list" where
  "check_and_merge_collisions_checked bodies collision_distance =
     outer_loop_checked collision_distance 0 bodies"

text \<open>The invariant of the data model: every mass in the store is strictly positive.\<close>

definition masses_positive :: "body list \<Rightarrow> bool" where
  "masses_positive bodies \<longleftrightarrow> (\<forall>b \<in> set bodies. 0 < mass b)"

section \<open>Snapshots (main.py)\<close>

text \<open>
  \<open>snapshot = {}\<close> and then \<open>snapshot[obj.name] = [x, y, z]\<close> for each body in turn. A
  Python dict keeps its keys in the order of their first insertion and an assignment to a
  key already present replaces the value where it is: the update of an association list.
\<close>

definition snapshot :: "body list \<Rightarrow> (string \<times> real list) list" where
  "snapshot bodies =
     foldl (\<lambda>snap obj.
              AList.update (name obj)
                [vx (position obj), vy (position obj), vz (position obj)] snap)
       [] bodies"

text \<open>Total momentum of the store, \<open>\<Sum> mass * velocity\<close>.\<close>

definition momentum :: "body list \<Rightarrow> vec3" where
  "momentum bodies = (\<Sum>b\<leftarrow>bodies. smul (mass b) (velocity b))"

text \<open>The mass-weighted sum of the stored accelerations: the net force on the store.\<close>

definition net_force :: "body list \<Rightarrow> vec3" where
  "net_force bodies = (\<Sum>b\<leftarrow>bodies. smul (mass b) (acceleration b))"

section \<open>The manual provider (database.py, Object and get\_objects\_from\_user)\<close>










section \<open>Vector arithmetic\<close>

lemma vec3_components [simp]:
  "vx (a + b) = vx a + vx b" "vy (a + b) = vy a + vy b" "vz (a + b) = vz a + vz b"
  "vx (a - b) = vx a - vx b" "vy (a - b) = vy a - vy b" "vz (a - b) = vz a - vz b"
  "vx (- a) = - vx a" "vy (- a) = - vy a" "vz (- a) = - vz a"
  "vx 0 = 0" "vy 0 = 0" "vz 0 = 0"
  "vx (smul c a) = c * vx a" "vy (smul c a) = c * vy a" "vz (smul c a) = c * vz a"
  "vx (sdiv a c) = vx a / c" "vy (sdiv a c) = vy a / c" "vz (sdiv a c) = vz a / c"
  by (simp_all add: zero_vec3_def plus_vec3_def minus_vec3_def uminus_vec3_def
        smul_def sdiv_def)

lemma vec3_eqI: "vx a = vx b \<Longrightarrow> vy a = vy b \<Longrightarrow> vz a = vz b \<Longrightarrow> a = b"
  by (rule vec3.expand) simp

lemma norm3_eq_0_iff: "norm3 v = 0 \<longleftrightarrow> v = 0"
  by (cases v) (simp add: norm3_def zero_vec3_def add_nonneg_eq_0_iff)

lemma norm3_nonneg: "0 \<le> norm3 v"
  by (simp add: norm3_def)

section \<open>Force evaluation: the loops\<close>

lemma map_update_same: "f x = f (xs ! i) \<Longrightarrow> map f (xs[i := x]) = map f xs"
  by (metis list_update_id map_update)

lemma foldl_add_upt:
  fixes f :: "nat \<Rightarrow> vec3"
  shows "foldl (\<lambda>a j. a + f j) t [0..<n] = t + (\<Sum>j<n. f j)"
  by (induction n) (simp_all add: add.assoc)

text \<open>The inner loop adds, for each \<open>j\<close>, the pull of body \<open>j\<close> on body \<open>i\<close> or nothing.\<close>

lemma acc_step_eq:
  "acc_step bs i =
     (\<lambda>t j. t + (if j \<noteq> i \<and> position (bs ! j) \<noteq> position (bs ! i)
                 then sdiv (smul (G * mass (bs ! j)) (position (bs ! j) - position (bs ! i)))
                        (norm3 (position (bs ! j) - position (bs ! i)) ^ 3)
                 else 0))"
  by (intro ext) (simp add: acc_step_def Let_def norm3_eq_0_iff eq_commute[of i])

lemma total_acc_of_sum:
  "total_acc_of bs i =
     (\<Sum>j<length bs. if j \<noteq> i \<and> position (bs ! j) \<noteq> position (bs ! i)
                 then sdiv (smul (G * mass (bs ! j)) (position (bs ! j) - position (bs ! i)))
                        (norm3 (position (bs ! j) - position (bs ! i)) ^ 3)
                 else 0)"
  by (simp add: total_acc_of_def acc_step_eq foldl_add_upt)

lemma length_set_acceleration [simp]: "length (set_acceleration bs i) = length bs"
  by (simp add: set_acceleration_def)

lemma length_foldl_set_acceleration [simp]:
  "length (foldl set_acceleration bs is) = length bs"
  by (induction "is" arbitrary: bs) simp_all

lemma length_compute [simp]: "length (compute_gravitational_accelerations bs) = length bs"
  by (simp add: compute_gravitational_accelerations_def)

lemma map_set_acceleration [simp]:
  "map position (set_acceleration bs i) = map position bs"
  "map mass (set_acceleration bs i) = map mass bs"
  "map velocity (set_acceleration bs i) = map velocity bs"
  "map name (set_acceleration bs i) = map name bs"
  by (simp_all add: set_acceleration_def map_update_same)

lemma map_foldl_set_acceleration [simp]:
  "map position (foldl set_acceleration bs is) = map position bs"
  "map mass (foldl set_acceleration bs is) = map mass bs"
  "map velocity (foldl set_acceleration bs is) = map velocity bs"
  "map name (foldl set_acceleration bs is) = map name bs"
  by (induction "is" arbitrary: bs) simp_all

text \<open>The inner loop reads positions and masses only.\<close>

lemma total_acc_of_cong:
  assumes "map position bs = map position bs'" "map mass bs = map mass bs'" "i < length bs"
  shows "total_acc_of bs i = total_acc_of bs' i"
proof -
  have l: "length bs = length bs'" using assms(1) by (metis length_map)
  have p: "\<And>k. k < length bs \<Longrightarrow> position (bs ! k) = position (bs' ! k)"
    using assms(1) l by (metis nth_map)
  have m: "\<And>k. k < length bs \<Longrightarrow> mass (bs ! k) = mass (bs' ! k)"
    using assms(2) l by (metis nth_map)
  show ?thesis unfolding total_acc_of_sum l[symmetric]
    by (rule sum.cong) (use p m assms(3) in auto)
qed

lemma set_acceleration_nth:
  "i < length bs \<Longrightarrow>
     set_acceleration bs n ! i =
       (if i = n then (bs ! n)\<lparr>acceleration := total_acc_of bs n\<rparr> else bs ! i)"
  by (simp add: set_acceleration_def nth_list_update)

lemma foldl_set_acceleration_nth:
  "n \<le> length bs \<Longrightarrow> i < length bs \<Longrightarrow>
     foldl set_acceleration bs [0..<n] ! i =
       (if i < n then (bs ! i)\<lparr>acceleration := total_acc_of bs i\<rparr> else bs ! i)"
proof (induction n arbitrary: i)
  case 0
  show ?case by simp
next
  case (Suc n)
  let ?cur = "foldl set_acceleration bs [0..<n]"
  have n: "n < length bs" using Suc.prems by simp
  have ih: "?cur ! k = (if k < n then (bs ! k)\<lparr>acceleration := total_acc_of bs k\<rparr> else bs ! k)"
    if "k < length bs" for k
    using Suc.IH [of k] that n by simp
  have curn: "?cur ! n = bs ! n"
    using ih [OF n] by simp
  have tot: "total_acc_of ?cur n = total_acc_of bs n"
    by (rule total_acc_of_cong) (simp_all add: n)
  have "foldl set_acceleration bs [0..<Suc n] ! i = set_acceleration ?cur n ! i"
    by simp
  also have "\<dots> = (if i = n then (?cur ! n)\<lparr>acceleration := total_acc_of ?cur n\<rparr> else ?cur ! i)"
    by (rule set_acceleration_nth) (simp add: Suc.prems(2))
  also have "\<dots> = (if i < Suc n then (bs ! i)\<lparr>acceleration := total_acc_of bs i\<rparr> else bs ! i)"
    using ih [OF Suc.prems(2)] curn tot by (simp add: less_Suc_eq)
  finally show ?case .
qed

lemma compute_nth:
  "i < length bs \<Longrightarrow>
     compute_gravitational_accelerations bs ! i = (bs ! i)\<lparr>acceleration := total_acc_of bs i\<rparr>"
  by (simp add: compute_gravitational_accelerations_def foldl_set_acceleration_nth)

section \<open>Force evaluation: results\<close>

text \<open>
  Claim C1. After \<open>compute_gravitational_accelerations\<close> the acceleration of body \<open>i\<close> is
  the sum, over every other body \<open>j\<close> whose position differs from that of body \<open>i\<close>, of
  \<open>G * mass_j * (pos_j - pos_i) / |pos_j - pos_i|^3\<close>, with \<open>G = 6.67430e-20\<close>; the only
  body of a one-body store gets the zero vector.
\<close>

theorem compute_acceleration_sum:
  "i < length bodies \<Longrightarrow>
     acceleration (compute_gravitational_accelerations bodies ! i) =
       (\<Sum>j \<in> {j. j < length bodies \<and> j \<noteq> i \<and> position (bodies ! j) \<noteq> position (bodies ! i)}.
          sdiv (smul (G * mass (bodies ! j)) (position (bodies ! j) - position (bodies ! i)))
            (norm3 (position (bodies ! j) - position (bodies ! i)) ^ 3))
     \<and> G = 6.67430 / 10 ^ 20
     \<and> (length bodies = 1 \<longrightarrow> acceleration (compute_gravitational_accelerations bodies ! i) = 0)"
proof -
  assume i: "i < length bodies"
  let ?P = "\<lambda>j. j \<noteq> i \<and> position (bodies ! j) \<noteq> position (bodies ! i)"
  let ?f = "\<lambda>j. sdiv (smul (G * mass (bodies ! j)) (position (bodies ! j) - position (bodies ! i)))
            (norm3 (position (bodies ! j) - position (bodies ! i)) ^ 3)"
  have "acceleration (compute_gravitational_accelerations bodies ! i) = total_acc_of bodies i"
    using i by (simp add: compute_nth)
  also have "\<dots> = (\<Sum>j\<in>{..<length bodies}. if ?P j then ?f j else 0)"
    by (simp add: total_acc_of_sum)
  also have "\<dots> = (\<Sum>j \<in> {j \<in> {..<length bodies}. ?P j}. ?f j)"
    by (rule sum.inter_filter [symmetric]) simp
  also have "{j \<in> {..<length bodies}. ?P j} = {j. j < length bodies \<and> ?P j}"
    by auto
  finally have main: "acceleration (compute_gravitational_accelerations bodies ! i) =
       (\<Sum>j \<in> {j. j < length bodies \<and> ?P j}. ?f j)" .
  have single: "acceleration (compute_gravitational_accelerations bodies ! i) = 0"
    if "length bodies = 1"
  proof -
    have "j = i" if "j < length bodies" for j
      using that i \<open>length bodies = 1\<close> by simp
    then have e: "{j. j < length bodies \<and> ?P j} = {}" by blast
    show ?thesis unfolding main e by simp
  qed
  show ?thesis using main single by (simp add: G_def)
qed

text \<open>
  The theorem at a one-body store, whose stale acceleration is overwritten with zero, and
  at a two-body store: a body of mass \<open>4e20\<close> at distance 2 pulls with \<open>G * 4e20 / 2^2\<close>.
\<close>

theorem compute_acceleration_sum_witness:
  "(0::nat) < length [\<lparr>name = ''A'', mass = 1, position = Vec3 0 0 0, velocity = 0, acceleration = Vec3 1 1 1\<rparr>]
   \<and> length [\<lparr>name = ''A'', mass = 1, position = Vec3 0 0 0, velocity = 0, acceleration = Vec3 1 1 1\<rparr>] = 1
   \<and> acceleration (compute_gravitational_accelerations
        [\<lparr>name = ''A'', mass = 1, position = Vec3 0 0 0, velocity = 0, acceleration = Vec3 1 1 1\<rparr>] ! 0) = 0
   \<and> (0::nat) < length
        [\<lparr>name = ''A'', mass = 1, position = Vec3 0 0 0, velocity = 0, acceleration = 0\<rparr>,
         \<lparr>name = ''B'', mass = 4 * 10 ^ 20, position = Vec3 2 0 0, velocity = 0, acceleration = 0\<rparr>]
   \<and> acceleration (compute_gravitational_accelerations
        [\<lparr>name = ''A'', mass = 1, position = Vec3 0 0 0, velocity = 0, acceleration = 0\<rparr>,
         \<lparr>name = ''B'', mass = 4 * 10 ^ 20, position = Vec3 2 0 0, velocity = 0, acceleration = 0\<rparr>] ! 0)
       = Vec3 6.6743 0 0"
proof -
  let ?one = "[\<lparr>name = ''A'', mass = 1, position = Vec3 0 0 0, velocity = 0, acceleration = Vec3 1 1 1\<rparr>]"
  let ?two = "[\<lparr>name = ''A'', mass = 1, position = Vec3 0 0 0, velocity = 0, acceleration = 0\<rparr>,
         \<lparr>name = ''B'', mass = 4 * 10 ^ 20, position = Vec3 2 0 0, velocity = 0, acceleration = 0\<rparr>]"
  have len1: "(0::nat) < length ?one" and one: "length ?one = 1" by simp_all
  have single: "acceleration (compute_gravitational_accelerations ?one ! 0) = 0"
    using compute_acceleration_sum [OF len1] one by blast
  have len2: "(0::nat) < length ?two" by simp
  have s: "{j. j < length ?two \<and> j \<noteq> 0 \<and> position (?two ! j) \<noteq> position (?two ! 0)} = {1}"
    by (auto simp: less_Suc_eq)
  have pair: "acceleration (compute_gravitational_accelerations ?two ! 0) = Vec3 6.6743 0 0"
    using compute_acceleration_sum [OF len2, THEN conjunct1]
    unfolding s
    by (simp add: G_def norm3_def smul_def sdiv_def minus_vec3_def)
  show ?thesis using len1 one single len2 pair by blast
qed

text \<open>
  Claim C10. \<open>compute_gravitational_accelerations\<close> changes the acceleration fields only:
  names, masses, positions and velocities, and the length and order of the list, are as
  before.
\<close>

theorem compute_frame:
  "map name (compute_gravitational_accelerations bodies) = map name bodies \<and>
   map mass (compute_gravitational_accelerations bodies) = map mass bodies \<and>
   map position (compute_gravitational_accelerations bodies) = map position bodies \<and>
   map velocity (compute_gravitational_accelerations bodies) = map velocity bodies \<and>
   length (compute_gravitational_accelerations bodies) = length bodies"
proof -
  have step: "map f (foldl set_acceleration bodies ks) = map f bodies"
    if "\<And>bs i. map f (set_acceleration bs i) = map f bs" for f :: "body \<Rightarrow> 'a" and ks
    using that by (induction ks arbitrary: bodies) simp_all
  have "map name (compute_gravitational_accelerations bodies) = map name bodies"
    unfolding compute_gravitational_accelerations_def
    by (rule step) (rule map_set_acceleration)
  moreover have "map mass (compute_gravitational_accelerations bodies) = map mass bodies"
    unfolding compute_gravitational_accelerations_def
    by (rule step) (rule map_set_acceleration)
  moreover have "map position (compute_gravitational_accelerations bodies) = map position bodies"
    unfolding compute_gravitational_accelerations_def
    by (rule step) (rule map_set_acceleration)
  moreover have "map velocity (compute_gravitational_accelerations bodies) = map velocity bodies"
    unfolding compute_gravitational_accelerations_def
    by (rule step) (rule map_set_acceleration)
  moreover have "length (compute_gravitational_accelerations bodies) = length bodies"
    by (rule length_compute)
  ultimately show ?thesis by blast
qed

section \<open>Integration: the loops\<close>

text \<open>
  A loop over the indices that rewrites element \<open>k\<close> from element \<open>k\<close> alone rewrites
  every element once.
\<close>

lemma foldl_update_length [simp]:
  "length (foldl (\<lambda>xs k. xs[k := g k (xs ! k)]) bs ks) = length bs"
  by (induction ks arbitrary: bs) simp_all

lemma foldl_update_nth:
  "n \<le> length bs \<Longrightarrow> i < length bs \<Longrightarrow>
     foldl (\<lambda>xs k. xs[k := g k (xs ! k)]) bs [0..<n] ! i =
       (if i < n then g i (bs ! i) else bs ! i)"
proof (induction n arbitrary: i)
  case 0
  show ?case by simp
next
  case (Suc n)
  let ?cur = "foldl (\<lambda>xs k. xs[k := g k (xs ! k)]) bs [0..<n]"
  have n: "n < length bs" using Suc.prems by simp
  have ih: "?cur ! k = (if k < n then g k (bs ! k) else bs ! k)" if "k < length bs" for k
    using Suc.IH [of k] that n by simp
  have "foldl (\<lambda>xs k. xs[k := g k (xs ! k)]) bs [0..<Suc n] ! i = (?cur[n := g n (?cur ! n)]) ! i"
    by simp
  also have "\<dots> = (if i = n then g n (?cur ! n) else ?cur ! i)"
    using Suc.prems(2) by (simp add: nth_list_update)
  also have "\<dots> = (if i < Suc n then g i (bs ! i) else bs ! i)"
    using ih [OF Suc.prems(2)] ih [OF n] by (simp add: less_Suc_eq)
  finally show ?case .
qed

lemma update_position_eq:
  "update_position dt old =
     (\<lambda>xs k. xs[k := (xs ! k)\<lparr>position := position (xs ! k)
          + (smul dt (velocity (xs ! k)) + smul (dt\<^sup>2) (smul 0.5 (old ! k)))\<rparr>])"
  by (intro ext) (simp add: update_position_def)

lemma update_velocity_eq:
  "update_velocity dt old =
     (\<lambda>xs k. xs[k := (xs ! k)\<lparr>velocity := velocity (xs ! k)
          + smul dt (smul 0.5 (old ! k + acceleration (xs ! k)))\<rparr>])"
  by (intro ext) (simp add: update_velocity_def)

lemma positions_updated_nth:
  "n = length bs \<Longrightarrow> i < length bs \<Longrightarrow>
     foldl (update_position dt old) bs [0..<n] ! i =
       (bs ! i)\<lparr>position := position (bs ! i)
          + (smul dt (velocity (bs ! i)) + smul (dt\<^sup>2) (smul 0.5 (old ! i)))\<rparr>"
  unfolding update_position_eq
  by (subst foldl_update_nth
        [where g = "\<lambda>k b. b\<lparr>position := position b
          + (smul dt (velocity b) + smul (dt\<^sup>2) (smul 0.5 (old ! k)))\<rparr>"]) simp_all

lemma velocities_updated_nth:
  "n = length bs \<Longrightarrow> i < length bs \<Longrightarrow>
     foldl (update_velocity dt old) bs [0..<n] ! i =
       (bs ! i)\<lparr>velocity := velocity (bs ! i)
          + smul dt (smul 0.5 (old ! i + acceleration (bs ! i)))\<rparr>"
  unfolding update_velocity_eq
  by (subst foldl_update_nth
        [where g = "\<lambda>k b. b\<lparr>velocity := velocity b
          + smul dt (smul 0.5 (old ! k + acceleration b))\<rparr>"]) simp_all

lemma length_positions_updated [simp]:
  "length (foldl (update_position dt old) bs ks) = length bs"
  unfolding update_position_eq
  by (rule foldl_update_length
        [where g = "\<lambda>k b. b\<lparr>position := position b
          + (smul dt (velocity b) + smul (dt\<^sup>2) (smul 0.5 (old ! k)))\<rparr>"])

lemma length_velocities_updated [simp]:
  "length (foldl (update_velocity dt old) bs ks) = length bs"
  unfolding update_velocity_eq
  by (rule foldl_update_length
        [where g = "\<lambda>k b. b\<lparr>velocity := velocity b
          + smul dt (smul 0.5 (old ! k + acceleration b))\<rparr>"])

lemma length_verlet [simp]: "length (verlet_integration bs dt) = length bs"
  by (simp add: verlet_integration_def Let_def)

text \<open>After step 2 every position has been updated, from the saved accelerations.\<close>

lemma positions_updated_map:
  "foldl (update_position dt (map acceleration bs)) bs [0..<length bs] =
     map (\<lambda>b. b\<lparr>position := position b
          + (smul dt (velocity b) + smul (dt\<^sup>2) (smul 0.5 (acceleration b)))\<rparr>) bs"
  by (rule nth_equalityI) (simp_all add: positions_updated_nth)

lemma verlet_nth:
  fixes bs :: "body list" and dt :: real
  assumes i: "i < length bs"
  defines "moved \<equiv> map (\<lambda>b. b\<lparr>position := position b
          + (smul dt (velocity b) + smul (dt\<^sup>2) (smul 0.5 (acceleration b)))\<rparr>) bs"
  shows "verlet_integration bs dt ! i =
     (bs ! i)\<lparr>position := position (bs ! i)
          + (smul dt (velocity (bs ! i)) + smul (dt\<^sup>2) (smul 0.5 (acceleration (bs ! i)))),
        acceleration := total_acc_of moved i,
        velocity := velocity (bs ! i)
          + smul dt (smul 0.5 (acceleration (bs ! i) + total_acc_of moved i))\<rparr>"
proof -
  let ?old = "map acceleration bs"
  have b1: "foldl (update_position dt ?old) bs [0..<length bs] = moved"
    unfolding moved_def by (rule positions_updated_map)
  have lm: "length moved = length bs" by (simp add: moved_def)
  have "verlet_integration bs dt =
      foldl (update_velocity dt ?old) (compute_gravitational_accelerations moved)
        [0..<length (compute_gravitational_accelerations moved)]"
    by (simp add: verlet_integration_def Let_def b1 lm)
  then have "verlet_integration bs dt ! i =
      (compute_gravitational_accelerations moved ! i)\<lparr>velocity :=
         velocity (compute_gravitational_accelerations moved ! i)
          + smul dt (smul 0.5 (?old ! i + acceleration (compute_gravitational_accelerations moved ! i)))\<rparr>"
    using i lm by (simp add: velocities_updated_nth)
  also have "compute_gravitational_accelerations moved ! i
      = (moved ! i)\<lparr>acceleration := total_acc_of moved i\<rparr>"
    using i lm by (simp add: compute_nth)
  finally show ?thesis using i by (simp add: moved_def)
qed

lemma smul_smul: "smul a (smul b v) = smul (a * b) v"
  by (simp add: smul_def mult.assoc)

section \<open>Integration: results\<close>

text \<open>
  Claim C2. \<open>verlet_integration bodies dt\<close> saves every acceleration as \<open>a_old\<close>, moves
  every body to \<open>pos + vel * dt + 0.5 * a_old * dt^2\<close>, recomputes the accelerations once,
  from the list in which all positions have been moved (\<open>a_new\<close>), and sets every
  velocity to \<open>vel + 0.5 * (a_old + a_new) * dt\<close>. Names and masses stay.
\<close>

theorem verlet_integration_order:
  "i < length bodies \<Longrightarrow>
     (let a_old = acceleration (bodies ! i);
          moved = map (\<lambda>b. b\<lparr>position :=
                     position b + smul dt (velocity b) + smul (0.5 * dt\<^sup>2) (acceleration b)\<rparr>)
                    bodies;
          a_new = acceleration (compute_gravitational_accelerations moved ! i)
      in length (verlet_integration bodies dt) = length bodies
       \<and> position (verlet_integration bodies dt ! i) =
           position (bodies ! i) + smul dt (velocity (bodies ! i)) + smul (0.5 * dt\<^sup>2) a_old
       \<and> acceleration (verlet_integration bodies dt ! i) = a_new
       \<and> velocity (verlet_integration bodies dt ! i) =
           velocity (bodies ! i) + smul (0.5 * dt) (a_old + a_new)
       \<and> name (verlet_integration bodies dt ! i) = name (bodies ! i)
       \<and> mass (verlet_integration bodies dt ! i) = mass (bodies ! i))"
proof -
  assume i: "i < length bodies"
  let ?moved = "map (\<lambda>b. b\<lparr>position :=
                     position b + smul dt (velocity b) + smul (0.5 * dt\<^sup>2) (acceleration b)\<rparr>)
                    bodies"
  let ?moved' = "map (\<lambda>b. b\<lparr>position := position b
          + (smul dt (velocity b) + smul (dt\<^sup>2) (smul 0.5 (acceleration b)))\<rparr>) bodies"
  have same: "?moved' = ?moved"
    by (simp add: smul_smul add.assoc mult.commute)
  have a_new: "acceleration (compute_gravitational_accelerations ?moved ! i) = total_acc_of ?moved i"
    using i by (simp add: compute_nth)
  note v = verlet_nth [OF i, of dt, unfolded same]
  show ?thesis
    unfolding Let_def a_new v
    by (simp add: smul_smul add.assoc mult.commute)
qed

text \<open>
  The theorem at two bodies on the x-axis and \<open>dt = 1\<close>: the first moves from 0 to 2, is
  then at distance 2 from the second, and its velocity becomes \<open>1 + 0.5 * (2 + 6.6743)\<close>.
\<close>

theorem verlet_integration_order_witness:
  "(0::nat) < length
      [\<lparr>name = ''A'', mass = 1, position = Vec3 0 0 0, velocity = Vec3 1 0 0, acceleration = Vec3 2 0 0\<rparr>,
       \<lparr>name = ''B'', mass = 4 * 10 ^ 20, position = Vec3 4 0 0, velocity = 0, acceleration = 0\<rparr>]
   \<and> position (verlet_integration
      [\<lparr>name = ''A'', mass = 1, position = Vec3 0 0 0, velocity = Vec3 1 0 0, acceleration = Vec3 2 0 0\<rparr>,
       \<lparr>name = ''B'', mass = 4 * 10 ^ 20, position = Vec3 4 0 0, velocity = 0, acceleration = 0\<rparr>] 1 ! 0)
       = Vec3 2 0 0
   \<and> acceleration (verlet_integration
      [\<lparr>name = ''A'', mass = 1, position = Vec3 0 0 0, velocity = Vec3 1 0 0, acceleration = Vec3 2 0 0\<rparr>,
       \<lparr>name = ''B'', mass = 4 * 10 ^ 20, position = Vec3 4 0 0, velocity = 0, acceleration = 0\<rparr>] 1 ! 0)
       = Vec3 6.6743 0 0
   \<and> velocity (verlet_integration
      [\<lparr>name = ''A'', mass = 1, position = Vec3 0 0 0, velocity = Vec3 1 0 0, acceleration = Vec3 2 0 0\<rparr>,
       \<lparr>name = ''B'', mass = 4 * 10 ^ 20, position = Vec3 4 0 0, velocity = 0, acceleration = 0\<rparr>] 1 ! 0)
       = Vec3 5.33715 0 0"
proof -
  let ?bs = "[\<lparr>name = ''A'', mass = 1, position = Vec3 0 0 0, velocity = Vec3 1 0 0, acceleration = Vec3 2 0 0\<rparr>,
       \<lparr>name = ''B'', mass = 4 * 10 ^ 20, position = Vec3 4 0 0, velocity = 0, acceleration = 0\<rparr>]"
  let ?moved = "map (\<lambda>b. b\<lparr>position :=
                     position b + smul 1 (velocity b) + smul (0.5 * 1\<^sup>2) (acceleration b)\<rparr>) ?bs"
  have len: "(0::nat) < length ?bs" by simp
  have two: "{..<2::nat} = {0, 1}" by auto
  have a_new: "acceleration (compute_gravitational_accelerations ?moved ! 0) = Vec3 6.6743 0 0"
    by (simp add: compute_nth total_acc_of_sum two G_def norm3_def smul_def sdiv_def
          plus_vec3_def minus_vec3_def zero_vec3_def)
  show ?thesis
    using verlet_integration_order [OF len, of 1] a_new
    by (simp add: Let_def smul_def plus_vec3_def zero_vec3_def)
qed

section \<open>Collisions: the loops\<close>

text \<open>The three branches of the inner loop and the two of the outer loop, one rule each.\<close>

lemma inner_loop_stop: "\<not> j < length bs \<Longrightarrow> inner_loop cd i j bs = bs"
  by (simp add: inner_loop.simps [of cd i j bs])

lemma inner_loop_hit:
  "j < length bs \<Longrightarrow> norm3 (position (bs ! i) - position (bs ! j)) < cd \<Longrightarrow>
     inner_loop cd i j bs = inner_loop cd i j (pop j (bs[i := merged (bs ! i) (bs ! j)]))"
  by (simp add: inner_loop.simps [of cd i j bs])

lemma inner_loop_miss:
  "j < length bs \<Longrightarrow> \<not> norm3 (position (bs ! i) - position (bs ! j)) < cd \<Longrightarrow>
     inner_loop cd i j bs = inner_loop cd i (Suc j) bs"
  by (simp add: inner_loop.simps [of cd i j bs])

lemma outer_loop_stop: "\<not> i < length bs \<Longrightarrow> outer_loop cd i bs = bs"
  by (simp add: outer_loop.simps [of cd i bs])

lemma outer_loop_step:
  "i < length bs \<Longrightarrow> outer_loop cd i bs = outer_loop cd (Suc i) (inner_loop cd i (Suc i) bs)"
  by (simp add: outer_loop.simps [of cd i bs])

lemma merged_fields [simp]:
  "mass (merged a b) = mass a + mass b"
  "position (merged a b) = sdiv (smul (mass a) (position a) + smul (mass b) (position b)) (mass a + mass b)"
  "velocity (merged a b) = sdiv (smul (mass a) (velocity a) + smul (mass b) (velocity b)) (mass a + mass b)"
  "name (merged a b) = name a @ ''+'' @ name b"
  "acceleration (merged a b) = acceleration a"
  by (simp_all add: merged_def Let_def)

section \<open>Collisions: results\<close>

lemma check_two_hit:
  assumes "norm3 (position a - position b) < cd"
  shows "check_and_merge_collisions [a, b] cd = [merged a b]"
proof -
  have "inner_loop cd 0 (Suc 0) [a, b] = inner_loop cd 0 (Suc 0) [merged a b]"
    using assms by (subst inner_loop_hit) (simp_all add: pop_def)
  also have "\<dots> = [merged a b]" by (simp add: inner_loop_stop)
  finally show ?thesis
    by (simp add: check_and_merge_collisions_def outer_loop_step outer_loop_stop)
qed

lemma check_two_miss:
  assumes "cd \<le> norm3 (position a - position b)"
  shows "check_and_merge_collisions [a, b] cd = [a, b]"
proof -
  have "inner_loop cd 0 (Suc 0) [a, b] = inner_loop cd 0 (Suc (Suc 0)) [a, b]"
    using assms by (subst inner_loop_miss) simp_all
  also have "\<dots> = [a, b]" by (simp add: inner_loop_stop)
  finally have i0: "inner_loop cd 0 (Suc 0) [a, b] = [a, b]" .
  have i1: "inner_loop cd (Suc 0) (Suc (Suc 0)) [a, b] = [a, b]"
    by (simp add: inner_loop_stop)
  show ?thesis
    by (simp add: check_and_merge_collisions_def outer_loop_step i0 i1 outer_loop_stop)
qed

lemma merged_checked_Inr:
  "mass a + mass b \<noteq> 0 \<Longrightarrow> merged_checked a b = Inr (merged a b)"
  by (simp add: merged_checked_def merged_def sdiv_checked_def Let_def)

lemma merged_checked_Inl:
  "mass a + mass b = 0 \<Longrightarrow> merged_checked a b = Inl DivideByZero"
  by (simp add: merged_checked_def sdiv_checked_def Let_def)

lemma inner_loop_checked_stop: "\<not> j < length bs \<Longrightarrow> inner_loop_checked cd i j bs = Inr bs"
  by (simp add: inner_loop_checked.simps [of cd i j bs])

lemma inner_loop_checked_hit:
  "j < length bs \<Longrightarrow> norm3 (position (bs ! i) - position (bs ! j)) < cd \<Longrightarrow>
     inner_loop_checked cd i j bs =
       (case merged_checked (bs ! i) (bs ! j) of
          Inl e \<Rightarrow> Inl e
        | Inr obj \<Rightarrow> inner_loop_checked cd i j (pop j (bs[i := obj])))"
  by (simp add: inner_loop_checked.simps [of cd i j bs])

lemma inner_loop_checked_miss:
  "j < length bs \<Longrightarrow> \<not> norm3 (position (bs ! i) - position (bs ! j)) < cd \<Longrightarrow>
     inner_loop_checked cd i j bs = inner_loop_checked cd i (Suc j) bs"
  by (simp add: inner_loop_checked.simps [of cd i j bs])

lemma outer_loop_checked_stop: "\<not> i < length bs \<Longrightarrow> outer_loop_checked cd i bs = Inr bs"
  by (simp add: outer_loop_checked.simps [of cd i bs])

lemma outer_loop_checked_step:
  "i < length bs \<Longrightarrow>
     outer_loop_checked cd i bs =
       (case inner_loop_checked cd i (Suc i) bs of
          Inl e \<Rightarrow> Inl e
        | Inr bs1 \<Rightarrow> outer_loop_checked cd (Suc i) bs1)"
  by (simp add: outer_loop_checked.simps [of cd i bs] split: sum.splits)

lemma check_two_hit_checked:
  assumes "norm3 (position a - position b) < cd" "mass a + mass b \<noteq> 0"
  shows "check_and_merge_collisions_checked [a, b] cd = Inr [merged a b]"
proof -
  have "inner_loop_checked cd 0 (Suc 0) [a, b] = inner_loop_checked cd 0 (Suc 0) [merged a b]"
    using assms by (subst inner_loop_checked_hit) (simp_all add: merged_checked_Inr pop_def)
  also have "\<dots> = Inr [merged a b]" by (simp add: inner_loop_checked_stop)
  finally show ?thesis
    by (simp add: check_and_merge_collisions_checked_def outer_loop_checked_step
          outer_loop_checked_stop)
qed

lemma check_two_zero_checked:
  assumes "norm3 (position a - position b) < cd" "mass a + mass b = 0"
  shows "check_and_merge_collisions_checked [a, b] cd = Inl DivideByZero"
proof -
  have "inner_loop_checked cd 0 (Suc 0) [a, b] = Inl DivideByZero"
    using assms by (subst inner_loop_checked_hit) (simp_all add: merged_checked_Inl)
  then show ?thesis
    by (simp add: check_and_merge_collisions_checked_def outer_loop_checked_step)
qed

lemma check_two_miss_checked:
  assumes "cd \<le> norm3 (position a - position b)"
  shows "check_and_merge_collisions_checked [a, b] cd = Inr [a, b]"
proof -
  have "inner_loop_checked cd 0 (Suc 0) [a, b] = inner_loop_checked cd 0 (Suc (Suc 0)) [a, b]"
    using assms by (subst inner_loop_checked_miss) simp_all
  also have "\<dots> = Inr [a, b]" by (simp add: inner_loop_checked_stop)
  finally have i0: "inner_loop_checked cd 0 (Suc 0) [a, b] = Inr [a, b]" .
  have i1: "inner_loop_checked cd (Suc 0) (Suc (Suc 0)) [a, b] = Inr [a, b]"
    by (simp add: inner_loop_checked_stop)
  show ?thesis
    by (simp add: check_and_merge_collisions_checked_def outer_loop_checked_step i0 i1
          outer_loop_checked_stop)
qed

text \<open>
  Claim C3, as amended. A store of exactly two bodies at a distance strictly below the
  collision distance, whose masses do not sum to zero, becomes a store of one body, with
  the sum of the masses, the mass-weighted means of the positions and of the velocities,
  and the name \<open>name_i + "+" + name_j\<close>, and no division by zero is performed; at a
  distance equal to the collision distance or above it, both bodies stay as they are.
\<close>

theorem merge_two_bodies:
  "(norm3 (position a - position b) < collision_distance \<and> mass a + mass b \<noteq> 0 \<longrightarrow>
      (\<exists>s. check_and_merge_collisions [a, b] collision_distance = [s]
         \<and> check_and_merge_collisions_checked [a, b] collision_distance = Inr [s]
         \<and> mass s = mass a + mass b
         \<and> position s = sdiv (smul (mass a) (position a) + smul (mass b) (position b)) (mass a + mass b)
         \<and> velocity s = sdiv (smul (mass a) (velocity a) + smul (mass b) (velocity b)) (mass a + mass b)
         \<and> name s = name a @ ''+'' @ name b))
   \<and> (collision_distance \<le> norm3 (position a - position b) \<longrightarrow>
        check_and_merge_collisions [a, b] collision_distance = [a, b]
        \<and> check_and_merge_collisions_checked [a, b] collision_distance = Inr [a, b])"
proof (intro conjI impI)
  assume h: "norm3 (position a - position b) < collision_distance \<and> mass a + mass b \<noteq> 0"
  then have "check_and_merge_collisions [a, b] collision_distance = [merged a b]"
    and "check_and_merge_collisions_checked [a, b] collision_distance = Inr [merged a b]"
    by (simp_all add: check_two_hit check_two_hit_checked)
  then show "\<exists>s. check_and_merge_collisions [a, b] collision_distance = [s]
         \<and> check_and_merge_collisions_checked [a, b] collision_distance = Inr [s]
         \<and> mass s = mass a + mass b
         \<and> position s = sdiv (smul (mass a) (position a) + smul (mass b) (position b)) (mass a + mass b)
         \<and> velocity s = sdiv (smul (mass a) (velocity a) + smul (mass b) (velocity b)) (mass a + mass b)
         \<and> name s = name a @ ''+'' @ name b"
    by (simp add: merged_fields)
next
  assume far: "collision_distance \<le> norm3 (position a - position b)"
  then show "check_and_merge_collisions [a, b] collision_distance = [a, b]"
    by (rule check_two_miss)
  from far show "check_and_merge_collisions_checked [a, b] collision_distance = Inr [a, b]"
    by (rule check_two_miss_checked)
qed

text \<open>
  Two bodies at distance 5 (a 3-4-5 triangle), masses 1 and 3: merged at collision
  distance 6, kept at collision distance 5.
\<close>

theorem merge_two_bodies_witness:
  "norm3 (position \<lparr>name = ''A'', mass = 1, position = Vec3 0 0 0, velocity = Vec3 4 0 0, acceleration = 0\<rparr>
        - position \<lparr>name = ''B'', mass = 3, position = Vec3 3 4 0, velocity = Vec3 0 0 0, acceleration = 0\<rparr>) < 6
   \<and> mass \<lparr>name = ''A'', mass = 1, position = Vec3 0 0 0, velocity = Vec3 4 0 0, acceleration = 0\<rparr>
       + mass \<lparr>name = ''B'', mass = 3, position = Vec3 3 4 0, velocity = Vec3 0 0 0, acceleration = 0\<rparr> = 4
   \<and> (\<exists>s. check_and_merge_collisions
          [\<lparr>name = ''A'', mass = 1, position = Vec3 0 0 0, velocity = Vec3 4 0 0, acceleration = 0\<rparr>,
           \<lparr>name = ''B'', mass = 3, position = Vec3 3 4 0, velocity = Vec3 0 0 0, acceleration = 0\<rparr>] 6 = [s]
        \<and> check_and_merge_collisions_checked
          [\<lparr>name = ''A'', mass = 1, position = Vec3 0 0 0, velocity = Vec3 4 0 0, acceleration = 0\<rparr>,
           \<lparr>name = ''B'', mass = 3, position = Vec3 3 4 0, velocity = Vec3 0 0 0, acceleration = 0\<rparr>] 6 = Inr [s]
        \<and> mass s = 4 \<and> position s = Vec3 (9 / 4) 3 0 \<and> velocity s = Vec3 1 0 0 \<and> name s = ''A+B'')
   \<and> 5 \<le> norm3 (position \<lparr>name = ''A'', mass = 1, position = Vec3 0 0 0, velocity = Vec3 4 0 0, acceleration = 0\<rparr>
        - position \<lparr>name = ''B'', mass = 3, position = Vec3 3 4 0, velocity = Vec3 0 0 0, acceleration = 0\<rparr>)
   \<and> check_and_merge_collisions
          [\<lparr>name = ''A'', mass = 1, position = Vec3 0 0 0, velocity = Vec3 4 0 0, acceleration = 0\<rparr>,
           \<lparr>name = ''B'', mass = 3, position = Vec3 3 4 0, velocity = Vec3 0 0 0, acceleration = 0\<rparr>] 5
       = [\<lparr>name = ''A'', mass = 1, position = Vec3 0 0 0, velocity = Vec3 4 0 0, acceleration = 0\<rparr>,
           \<lparr>name = ''B'', mass = 3, position = Vec3 3 4 0, velocity = Vec3 0 0 0, acceleration = 0\<rparr>]
   \<and> check_and_merge_collisions_checked
          [\<lparr>name = ''A'', mass = 1, position = Vec3 0 0 0, velocity = Vec3 4 0 0, acceleration = 0\<rparr>,
           \<lparr>name = ''B'', mass = 3, position = Vec3 3 4 0, velocity = Vec3 0 0 0, acceleration = 0\<rparr>] 5
       = Inr [\<lparr>name = ''A'', mass = 1, position = Vec3 0 0 0, velocity = Vec3 4 0 0, acceleration = 0\<rparr>,
           \<lparr>name = ''B'', mass = 3, position = Vec3 3 4 0, velocity = Vec3 0 0 0, acceleration = 0\<rparr>]"
proof -
  let ?A = "\<lparr>name = ''A'', mass = 1, position = Vec3 0 0 0, velocity = Vec3 4 0 0, acceleration = 0\<rparr>"
  let ?B = "\<lparr>name = ''B'', mass = 3, position = Vec3 3 4 0, velocity = Vec3 0 0 0, acceleration = 0\<rparr>"
  have d: "norm3 (position ?A - position ?B) = 5"
    by (simp add: norm3_def minus_vec3_def)
  have near: "norm3 (position ?A - position ?B) < 6" and far: "5 \<le> norm3 (position ?A - position ?B)"
    using d by simp_all
  have sum: "mass ?A + mass ?B = 4" by simp
  then have nz: "mass ?A + mass ?B \<noteq> 0" by simp
  from merge_two_bodies [of ?A ?B 6] near nz
  obtain s where s: "check_and_merge_collisions [?A, ?B] 6 = [s]"
      "check_and_merge_collisions_checked [?A, ?B] 6 = Inr [s]"
      "mass s = mass ?A + mass ?B"
      "position s = sdiv (smul (mass ?A) (position ?A) + smul (mass ?B) (position ?B)) (mass ?A + mass ?B)"
      "velocity s = sdiv (smul (mass ?A) (velocity ?A) + smul (mass ?B) (velocity ?B)) (mass ?A + mass ?B)"
      "name s = name ?A @ ''+'' @ name ?B"
    by blast
  have fields: "mass s = 4" "position s = Vec3 (9 / 4) 3 0" "velocity s = Vec3 1 0 0" "name s = ''A+B''"
    using s(3-6) by (simp_all add: smul_def sdiv_def plus_vec3_def)
  have kept: "check_and_merge_collisions [?A, ?B] 5 = [?A, ?B]"
      "check_and_merge_collisions_checked [?A, ?B] 5 = Inr [?A, ?B]"
    using merge_two_bodies [of ?A ?B 5] far by blast+
  show ?thesis using near sum far s(1,2) fields kept by blast
qed

text \<open>
  Claim C3 as stated, for every store of two bodies, fails where the two masses sum to
  zero, which nothing in the code excludes: with masses 1 and \<open>-1\<close> at distance 2 and a
  collision distance 3 the merge divides by \<open>M = 0\<close>, and the survivor has no position and
  no velocity among the real numbers.
\<close>

theorem merge_zero_mass_sum_counterexample:
  "norm3 (position \<lparr>name = ''A'', mass = 1, position = Vec3 0 0 0, velocity = Vec3 1 0 0, acceleration = 0\<rparr>
        - position \<lparr>name = ''B'', mass = - 1, position = Vec3 2 0 0, velocity = Vec3 0 0 0, acceleration = 0\<rparr>) < 3
   \<and> mass \<lparr>name = ''A'', mass = 1, position = Vec3 0 0 0, velocity = Vec3 1 0 0, acceleration = 0\<rparr>
       + mass \<lparr>name = ''B'', mass = - 1, position = Vec3 2 0 0, velocity = Vec3 0 0 0, acceleration = 0\<rparr> = 0
   \<and> check_and_merge_collisions_checked
        [\<lparr>name = ''A'', mass = 1, position = Vec3 0 0 0, velocity = Vec3 1 0 0, acceleration = 0\<rparr>,
         \<lparr>name = ''B'', mass = - 1, position = Vec3 2 0 0, velocity = Vec3 0 0 0, acceleration = 0\<rparr>] 3
       = Inl DivideByZero"
proof -
  let ?A = "\<lparr>name = ''A'', mass = 1, position = Vec3 0 0 0, velocity = Vec3 1 0 0, acceleration = 0\<rparr>"
  let ?B = "\<lparr>name = ''B'', mass = - 1, position = Vec3 2 0 0, velocity = Vec3 0 0 0, acceleration = 0\<rparr>"
  have d: "norm3 (position ?A - position ?B) = 2"
    by (simp add: norm3_def minus_vec3_def)
  then have near: "norm3 (position ?A - position ?B) < 3" by simp
  have zero: "mass ?A + mass ?B = 0" by simp
  show ?thesis
    using near zero check_two_zero_checked [OF near zero] by blast
qed

text \<open>
  The Euclidean norm is subadditive and homogeneous, so the centre of mass of two bodies of
  positive mass is closer than \<open>d\<close> to any point that both bodies are closer than \<open>d\<close> to.
\<close>

lemma norm3_triangle: "norm3 (u + v) \<le> norm3 u + norm3 v"
proof -
  let ?a = "sqrt ((vx u)\<^sup>2 + (vy u)\<^sup>2)" and ?b = "sqrt ((vx v)\<^sup>2 + (vy v)\<^sup>2)"
  have xy: "sqrt ((vx u + vx v)\<^sup>2 + (vy u + vy v)\<^sup>2) \<le> ?a + ?b"
    by (rule real_sqrt_sum_squares_triangle_ineq)
  have "(vx u + vx v)\<^sup>2 + (vy u + vy v)\<^sup>2 \<le> (?a + ?b)\<^sup>2"
  proof -
    have "(sqrt ((vx u + vx v)\<^sup>2 + (vy u + vy v)\<^sup>2))\<^sup>2 \<le> (?a + ?b)\<^sup>2"
      by (rule power_mono [OF xy]) simp
    then show ?thesis by simp
  qed
  then have "norm3 (u + v) \<le> sqrt ((?a + ?b)\<^sup>2 + (vz u + vz v)\<^sup>2)"
    by (simp add: norm3_def)
  also have "\<dots> \<le> sqrt (?a\<^sup>2 + (vz u)\<^sup>2) + sqrt (?b\<^sup>2 + (vz v)\<^sup>2)"
    by (rule real_sqrt_sum_squares_triangle_ineq)
  also have "\<dots> = norm3 u + norm3 v"
    by (simp add: norm3_def)
  finally show ?thesis .
qed

lemma norm3_smul: "norm3 (smul c v) = \<bar>c\<bar> * norm3 v"
proof -
  have "(c * vx v)\<^sup>2 + (c * vy v)\<^sup>2 + (c * vz v)\<^sup>2 = c\<^sup>2 * ((vx v)\<^sup>2 + (vy v)\<^sup>2 + (vz v)\<^sup>2)"
    by (simp add: power_mult_distrib algebra_simps)
  then show ?thesis
    by (simp add: norm3_def real_sqrt_mult)
qed

lemma sdiv_smul: "sdiv v c = smul (1 / c) v"
  by (rule vec3_eqI) simp_all

lemma weighted_mean_shift:
  fixes m1 m2 M x1 x2 y :: real
  assumes "M \<noteq> 0" "m1 + m2 = M"
  shows "(m1 * x1 + m2 * x2) / M - y = m1 / M * (x1 - y) + m2 / M * (x2 - y)"
proof -
  have "m1 * x1 + m2 * x2 - M * y = m1 * (x1 - y) + m2 * (x2 - y)"
    unfolding assms(2) [symmetric] by (simp add: algebra_simps)
  then have "(m1 * x1 + m2 * x2 - M * y) / M = (m1 * (x1 - y) + m2 * (x2 - y)) / M"
    by simp
  then show ?thesis
    using assms(1) by (simp add: diff_divide_distrib add_divide_distrib)
qed

lemma centroid_close:
  assumes m: "0 < m1" "0 < m2"
    and d1: "norm3 (p1 - c) < d" and d2: "norm3 (p2 - c) < d"
  shows "norm3 (sdiv (smul m1 p1 + smul m2 p2) (m1 + m2) - c) < d"
proof -
  let ?M = "m1 + m2"
  have M: "0 < ?M" using m by simp
  have sc: "(m1 * x1 + m2 * x2) / ?M - y = m1 / ?M * (x1 - y) + m2 / ?M * (x2 - y)"
    for x1 x2 y :: real
    by (rule weighted_mean_shift) (use M in simp_all)
  have eq: "sdiv (smul m1 p1 + smul m2 p2) ?M - c
      = smul (m1 / ?M) (p1 - c) + smul (m2 / ?M) (p2 - c)"
    by (intro vec3_eqI) (simp_all only: vec3_components sc)
  have "norm3 (sdiv (smul m1 p1 + smul m2 p2) ?M - c)
      \<le> norm3 (smul (m1 / ?M) (p1 - c)) + norm3 (smul (m2 / ?M) (p2 - c))"
    unfolding eq by (rule norm3_triangle)
  also have "\<dots> = (m1 / ?M) * norm3 (p1 - c) + (m2 / ?M) * norm3 (p2 - c)"
    using m M by (simp add: norm3_smul)
  also have "\<dots> < (m1 / ?M) * d + (m2 / ?M) * d"
    using m M d1 d2 by (intro add_strict_mono mult_strict_left_mono) simp_all
  also have "\<dots> = ((m1 + m2) / ?M) * d"
    by (simp only: add_divide_distrib distrib_right)
  also have "\<dots> = d"
    using M by simp
  finally show ?thesis .
qed

lemma pop_nth_shift: "Suc j < length xs \<Longrightarrow> pop j xs ! j = xs ! Suc j"
  by (simp add: pop_def nth_append)

text \<open>
  Claim C4, as amended. After a merge the inner loop goes on with the same \<open>j\<close>, and the
  element that was at \<open>j + 1\<close> is now at \<open>j\<close>. For three bodies of strictly positive mass
  whose pairwise distances are all strictly below the collision distance, one pass leaves
  exactly one body, whose mass is the sum of the three masses.
\<close>

theorem chain_merge:
  "(j < length bs \<and> i < j \<and> norm3 (position (bs ! i) - position (bs ! j)) < cd \<longrightarrow>
      inner_loop cd i j bs = inner_loop cd i j (pop j (bs[i := merged (bs ! i) (bs ! j)]))
      \<and> (Suc j < length bs \<longrightarrow> pop j (bs[i := merged (bs ! i) (bs ! j)]) ! j = bs ! Suc j))
   \<and> (0 < mass a \<and> 0 < mass b \<and> 0 < mass c
       \<and> norm3 (position a - position b) < cd
       \<and> norm3 (position a - position c) < cd
       \<and> norm3 (position b - position c) < cd \<longrightarrow>
         (\<exists>s. check_and_merge_collisions [a, b, c] cd = [s]
              \<and> mass s = mass a + mass b + mass c))"
proof (intro conjI impI)
  assume h: "j < length bs \<and> i < j \<and> norm3 (position (bs ! i) - position (bs ! j)) < cd"
  then show "inner_loop cd i j bs = inner_loop cd i j (pop j (bs[i := merged (bs ! i) (bs ! j)]))"
    by (simp add: inner_loop_hit)
  assume "Suc j < length bs"
  then show "pop j (bs[i := merged (bs ! i) (bs ! j)]) ! j = bs ! Suc j"
    using h by (simp add: pop_nth_shift)
next
  assume h: "0 < mass a \<and> 0 < mass b \<and> 0 < mass c
       \<and> norm3 (position a - position b) < cd
       \<and> norm3 (position a - position c) < cd
       \<and> norm3 (position b - position c) < cd"
  have ab: "norm3 (position a - position b) < cd" using h by simp
  have abc: "norm3 (position (merged a b) - position c) < cd"
    using h by (simp add: centroid_close)
  have "inner_loop cd 0 (Suc 0) [a, b, c] = inner_loop cd 0 (Suc 0) [merged a b, c]"
    using ab by (subst inner_loop_hit) (simp_all add: pop_def)
  also have "\<dots> = inner_loop cd 0 (Suc 0) [merged (merged a b) c]"
    using abc by (subst inner_loop_hit) (simp_all add: pop_def)
  also have "\<dots> = [merged (merged a b) c]"
    by (simp add: inner_loop_stop)
  finally have "check_and_merge_collisions [a, b, c] cd = [merged (merged a b) c]"
    by (simp add: check_and_merge_collisions_def outer_loop_step outer_loop_stop)
  then show "\<exists>s. check_and_merge_collisions [a, b, c] cd = [s] \<and> mass s = mass a + mass b + mass c"
    by simp
qed

text \<open>The theorem at three bodies on a line, masses 1, 1 and 2, collision distance 3.\<close>

theorem chain_merge_witness:
  "(Suc 0 < length
        [\<lparr>name = ''A'', mass = 1, position = Vec3 0 0 0, velocity = 0, acceleration = 0\<rparr>,
         \<lparr>name = ''B'', mass = 1, position = Vec3 2 0 0, velocity = 0, acceleration = 0\<rparr>,
         \<lparr>name = ''C'', mass = 2, position = Vec3 1 0 0, velocity = 0, acceleration = 0\<rparr>]
    \<and> (0::nat) < Suc 0
    \<and> Suc (Suc 0) < length
        [\<lparr>name = ''A'', mass = 1, position = Vec3 0 0 0, velocity = 0, acceleration = 0\<rparr>,
         \<lparr>name = ''B'', mass = 1, position = Vec3 2 0 0, velocity = 0, acceleration = 0\<rparr>,
         \<lparr>name = ''C'', mass = 2, position = Vec3 1 0 0, velocity = 0, acceleration = 0\<rparr>])
   \<and> norm3 (Vec3 0 0 0 - Vec3 2 0 0) < 3
   \<and> norm3 (Vec3 0 0 0 - Vec3 1 0 0) < 3
   \<and> norm3 (Vec3 2 0 0 - Vec3 1 0 0) < 3
   \<and> pop (Suc 0)
        ([\<lparr>name = ''A'', mass = 1, position = Vec3 0 0 0, velocity = 0, acceleration = 0\<rparr>,
          \<lparr>name = ''B'', mass = 1, position = Vec3 2 0 0, velocity = 0, acceleration = 0\<rparr>,
          \<lparr>name = ''C'', mass = 2, position = Vec3 1 0 0, velocity = 0, acceleration = 0\<rparr>]
         [0 := merged \<lparr>name = ''A'', mass = 1, position = Vec3 0 0 0, velocity = 0, acceleration = 0\<rparr>
                 \<lparr>name = ''B'', mass = 1, position = Vec3 2 0 0, velocity = 0, acceleration = 0\<rparr>]) ! Suc 0
       = \<lparr>name = ''C'', mass = 2, position = Vec3 1 0 0, velocity = 0, acceleration = 0\<rparr>
   \<and> (\<exists>s. check_and_merge_collisions
          [\<lparr>name = ''A'', mass = 1, position = Vec3 0 0 0, velocity = 0, acceleration = 0\<rparr>,
           \<lparr>name = ''B'', mass = 1, position = Vec3 2 0 0, velocity = 0, acceleration = 0\<rparr>,
           \<lparr>name = ''C'', mass = 2, position = Vec3 1 0 0, velocity = 0, acceleration = 0\<rparr>] 3 = [s]
        \<and> mass s = 4)"
proof -
  let ?A = "\<lparr>name = ''A'', mass = 1, position = Vec3 0 0 0, velocity = 0, acceleration = 0\<rparr>"
  let ?B = "\<lparr>name = ''B'', mass = 1, position = Vec3 2 0 0, velocity = 0, acceleration = 0\<rparr>"
  let ?C = "\<lparr>name = ''C'', mass = 2, position = Vec3 1 0 0, velocity = 0, acceleration = 0\<rparr>"
  have d: "norm3 (Vec3 0 0 0 - Vec3 2 0 0) < 3" "norm3 (Vec3 0 0 0 - Vec3 1 0 0) < 3"
      "norm3 (Vec3 2 0 0 - Vec3 1 0 0) < 3"
    by (simp_all add: norm3_def minus_vec3_def)
  note t = chain_merge [of "Suc 0" "[?A, ?B, ?C]" 0 3 ?A ?B ?C]
  have idx: "Suc 0 < length [?A, ?B, ?C] \<and> (0::nat) < Suc 0 \<and> Suc (Suc 0) < length [?A, ?B, ?C]"
    by simp
  have shift: "pop (Suc 0) ([?A, ?B, ?C][0 := merged ?A ?B]) ! Suc 0 = ?C"
    using t [THEN conjunct1] d(1) by simp
  have "\<exists>s. check_and_merge_collisions [?A, ?B, ?C] 3 = [s] \<and> mass s = mass ?A + mass ?B + mass ?C"
    using t [THEN conjunct2] d by simp
  then have one: "\<exists>s. check_and_merge_collisions [?A, ?B, ?C] 3 = [s] \<and> mass s = 4"
    by simp
  show ?thesis using idx d shift one by blast
qed

text \<open>
  Claim C4 as stated, for every store of three bodies, fails when a mass is negative, which
  nothing in the code excludes: the merge of masses 3 and \<open>-2\<close> puts the survivor at
  \<open>(3 * 0 + (-2) * 2) / 1 = -4\<close>, at distance 5 from the third body, and two bodies are
  left although all three pairwise distances were below 3.
\<close>

theorem chain_merge_negative_mass_counterexample:
  "norm3 (position \<lparr>name = ''A'', mass = 3, position = Vec3 0 0 0, velocity = 0, acceleration = 0\<rparr>
        - position \<lparr>name = ''B'', mass = - 2, position = Vec3 2 0 0, velocity = 0, acceleration = 0\<rparr>) < 3
   \<and> norm3 (position \<lparr>name = ''A'', mass = 3, position = Vec3 0 0 0, velocity = 0, acceleration = 0\<rparr>
        - position \<lparr>name = ''C'', mass = 1, position = Vec3 1 0 0, velocity = 0, acceleration = 0\<rparr>) < 3
   \<and> norm3 (position \<lparr>name = ''B'', mass = - 2, position = Vec3 2 0 0, velocity = 0, acceleration = 0\<rparr>
        - position \<lparr>name = ''C'', mass = 1, position = Vec3 1 0 0, velocity = 0, acceleration = 0\<rparr>) < 3
   \<and> check_and_merge_collisions
        [\<lparr>name = ''A'', mass = 3, position = Vec3 0 0 0, velocity = 0, acceleration = 0\<rparr>,
         \<lparr>name = ''B'', mass = - 2, position = Vec3 2 0 0, velocity = 0, acceleration = 0\<rparr>,
         \<lparr>name = ''C'', mass = 1, position = Vec3 1 0 0, velocity = 0, acceleration = 0\<rparr>] 3
       = [\<lparr>name = ''A+B'', mass = 1, position = Vec3 (- 4) 0 0, velocity = Vec3 0 0 0, acceleration = 0\<rparr>,
          \<lparr>name = ''C'', mass = 1, position = Vec3 1 0 0, velocity = 0, acceleration = 0\<rparr>]"
proof -
  let ?A = "\<lparr>name = ''A'', mass = 3, position = Vec3 0 0 0, velocity = 0, acceleration = 0\<rparr>"
  let ?B = "\<lparr>name = ''B'', mass = - 2, position = Vec3 2 0 0, velocity = 0, acceleration = 0\<rparr>"
  let ?C = "\<lparr>name = ''C'', mass = 1, position = Vec3 1 0 0, velocity = 0, acceleration = 0\<rparr>"
  let ?AB = "\<lparr>name = ''A+B'', mass = 1, position = Vec3 (- 4) 0 0, velocity = Vec3 0 0 0, acceleration = 0\<rparr>"
  have dab: "norm3 (position ?A - position ?B) = 2"
    and dac: "norm3 (position ?A - position ?C) = 1"
    and dbc: "norm3 (position ?B - position ?C) = 1"
    and dabc: "norm3 (position ?AB - position ?C) = 5"
    by (simp_all add: norm3_def minus_vec3_def)
  have m: "merged ?A ?B = ?AB"
    by (simp add: merged_def Let_def smul_def sdiv_def plus_vec3_def zero_vec3_def)
  have "inner_loop 3 0 (Suc 0) [?A, ?B, ?C] = inner_loop 3 0 (Suc 0) [?AB, ?C]"
    using dab by (subst inner_loop_hit) (simp_all add: pop_def m)
  also have "\<dots> = inner_loop 3 0 (Suc (Suc 0)) [?AB, ?C]"
    using dabc by (subst inner_loop_miss) simp_all
  also have "\<dots> = [?AB, ?C]"
    by (simp add: inner_loop_stop)
  finally have i0: "inner_loop 3 0 (Suc 0) [?A, ?B, ?C] = [?AB, ?C]" .
  have i1: "inner_loop 3 (Suc 0) (Suc (Suc 0)) [?AB, ?C] = [?AB, ?C]"
    by (simp add: inner_loop_stop)
  have "check_and_merge_collisions [?A, ?B, ?C] 3 = [?AB, ?C]"
    by (simp add: check_and_merge_collisions_def outer_loop_step i0 i1 outer_loop_stop)
  then show ?thesis using dab dac dbc by simp
qed

section \<open>Positive masses\<close>

lemma set_pop_subset: "set (pop j xs) \<subseteq> set xs"
  by (auto simp: pop_def dest: in_set_takeD in_set_dropD)

lemma masses_positive_update:
  assumes "masses_positive bs" "0 < mass x"
  shows "masses_positive (bs[i := x])"
  unfolding masses_positive_def
proof
  fix b assume "b \<in> set (bs[i := x])"
  then have "b \<in> insert x (set bs)"
    using set_update_subset_insert [of bs i x] by (rule rev_subsetD)
  then show "0 < mass b"
    using assms by (auto simp: masses_positive_def)
qed

lemma masses_positive_pop:
  assumes "masses_positive bs"
  shows "masses_positive (pop j bs)"
  unfolding masses_positive_def
proof
  fix b assume "b \<in> set (pop j bs)"
  then have "b \<in> set bs" using set_pop_subset [of j bs] by (rule rev_subsetD)
  then show "0 < mass b" using assms by (simp add: masses_positive_def)
qed

lemma masses_positive_merge_step:
  assumes "masses_positive bs" "j < length bs"
  shows "masses_positive (pop j (bs[i := merged (bs ! i) (bs ! j)]))"
proof (cases "i < length bs")
  case True
  have "0 < mass (bs ! i)" "0 < mass (bs ! j)"
    using assms True by (simp_all add: masses_positive_def)
  then have "0 < mass (merged (bs ! i) (bs ! j))"
    by (simp add: add_pos_pos)
  then show ?thesis
    by (intro masses_positive_pop masses_positive_update assms(1))
next
  case False
  then have "length bs \<le> i" by simp
  then have "bs[i := merged (bs ! i) (bs ! j)] = bs" by (rule list_update_beyond)
  then show ?thesis
    using masses_positive_pop [OF assms(1)] by simp
qed

lemma masses_positive_inner_loop:
  "masses_positive bs \<Longrightarrow> masses_positive (inner_loop cd i j bs)"
proof (induction cd i j bs rule: inner_loop.induct)
  case (1 cd i j bs)
  show ?case
  proof (cases "j < length bs")
    case False
    then show ?thesis using "1.prems" by (simp add: inner_loop_stop)
  next
    case True
    show ?thesis
    proof (cases "norm3 (position (bs ! i) - position (bs ! j)) < cd")
      case hit: True
      have "masses_positive (inner_loop cd i j (pop j (bs[i := merged (bs ! i) (bs ! j)])))"
        using "1.IH"(1) [OF True refl hit] masses_positive_merge_step [OF "1.prems" True] .
      then show ?thesis by (simp add: inner_loop_hit [OF True hit])
    next
      case miss: False
      have "masses_positive (inner_loop cd i (j + 1) bs)"
        using "1.IH"(2) [OF True refl miss] "1.prems" .
      then show ?thesis by (simp add: inner_loop_miss [OF True miss])
    qed
  qed
qed

lemma masses_positive_outer_loop:
  "masses_positive bs \<Longrightarrow> masses_positive (outer_loop cd i bs)"
proof (induction cd i bs rule: outer_loop.induct)
  case (1 cd i bs)
  show ?case
  proof (cases "i < length bs")
    case False
    then show ?thesis using "1.prems" by (simp add: outer_loop_stop)
  next
    case True
    have "masses_positive (outer_loop cd (i + 1) (inner_loop cd i (i + 1) bs))"
      using "1.IH" [OF True] masses_positive_inner_loop [OF "1.prems"] .
    then show ?thesis by (simp add: outer_loop_step [OF True])
  qed
qed

lemma masses_positive_map: "masses_positive bs \<longleftrightarrow> (\<forall>m \<in> set (map mass bs). 0 < m)"
  by (auto simp: masses_positive_def)

lemma map_mass_verlet: "map mass (verlet_integration bs dt) = map mass bs"
  by (rule nth_equalityI) (simp_all add: verlet_nth)

lemma map_mass_compute: "map mass (compute_gravitational_accelerations bs) = map mass bs"
  by (simp add: compute_gravitational_accelerations_def)

text \<open>
  Claim C9. In a store in which every mass is strictly positive, each of
  \<open>compute_gravitational_accelerations\<close>, \<open>verlet_integration\<close> and
  \<open>check_and_merge_collisions\<close> leaves every mass strictly positive: the first two do
  not change any mass, and a merge adds two positive masses.
\<close>

theorem mass_positive_preserved:
  "(\<forall>b \<in> set bodies. 0 < mass b) \<Longrightarrow>
     (\<forall>b \<in> set (compute_gravitational_accelerations bodies). 0 < mass b)
     \<and> map mass (compute_gravitational_accelerations bodies) = map mass bodies
     \<and> (\<forall>b \<in> set (verlet_integration bodies dt). 0 < mass b)
     \<and> map mass (verlet_integration bodies dt) = map mass bodies
     \<and> (\<forall>b \<in> set (check_and_merge_collisions bodies collision_distance). 0 < mass b)"
proof -
  assume pos: "\<forall>b \<in> set bodies. 0 < mass b"
  then have mp: "masses_positive bodies" by (simp add: masses_positive_def)
  have "masses_positive (compute_gravitational_accelerations bodies)"
    using mp unfolding masses_positive_map map_mass_compute .
  moreover have "masses_positive (verlet_integration bodies dt)"
    using mp unfolding masses_positive_map map_mass_verlet .
  moreover have "masses_positive (check_and_merge_collisions bodies collision_distance)"
    unfolding check_and_merge_collisions_def using mp by (rule masses_positive_outer_loop)
  ultimately show ?thesis
    by (simp add: masses_positive_def map_mass_compute map_mass_verlet)
qed

text \<open>The theorem at two bodies that the collision pass merges.\<close>

theorem mass_positive_preserved_witness:
  "0 < mass \<lparr>name = ''A'', mass = 1, position = Vec3 0 0 0, velocity = Vec3 4 0 0, acceleration = 0\<rparr>
   \<and> 0 < mass \<lparr>name = ''B'', mass = 3, position = Vec3 3 4 0, velocity = Vec3 0 0 0, acceleration = 0\<rparr>
   \<and> map mass (compute_gravitational_accelerations
         [\<lparr>name = ''A'', mass = 1, position = Vec3 0 0 0, velocity = Vec3 4 0 0, acceleration = 0\<rparr>,
          \<lparr>name = ''B'', mass = 3, position = Vec3 3 4 0, velocity = Vec3 0 0 0, acceleration = 0\<rparr>])
       = [1, 3]
   \<and> map mass (verlet_integration
         [\<lparr>name = ''A'', mass = 1, position = Vec3 0 0 0, velocity = Vec3 4 0 0, acceleration = 0\<rparr>,
          \<lparr>name = ''B'', mass = 3, position = Vec3 3 4 0, velocity = Vec3 0 0 0, acceleration = 0\<rparr>] 1)
       = [1, 3]
   \<and> length (check_and_merge_collisions
         [\<lparr>name = ''A'', mass = 1, position = Vec3 0 0 0, velocity = Vec3 4 0 0, acceleration = 0\<rparr>,
          \<lparr>name = ''B'', mass = 3, position = Vec3 3 4 0, velocity = Vec3 0 0 0, acceleration = 0\<rparr>] 6)
       = 1
   \<and> 0 < mass (hd (check_and_merge_collisions
         [\<lparr>name = ''A'', mass = 1, position = Vec3 0 0 0, velocity = Vec3 4 0 0, acceleration = 0\<rparr>,
          \<lparr>name = ''B'', mass = 3, position = Vec3 3 4 0, velocity = Vec3 0 0 0, acceleration = 0\<rparr>] 6))"
proof -
  let ?A = "\<lparr>name = ''A'', mass = 1, position = Vec3 0 0 0, velocity = Vec3 4 0 0, acceleration = 0\<rparr>"
  let ?B = "\<lparr>name = ''B'', mass = 3, position = Vec3 3 4 0, velocity = Vec3 0 0 0, acceleration = 0\<rparr>"
  have pos: "\<forall>b \<in> set [?A, ?B]. 0 < mass b" by simp
  note t = mass_positive_preserved [OF pos, of 1 6]
  have m1: "map mass (compute_gravitational_accelerations [?A, ?B]) = [1, 3]"
    and m2: "map mass (verlet_integration [?A, ?B] 1) = [1, 3]"
    using t by simp_all
  have "norm3 (position ?A - position ?B) < 6"
    by (simp add: norm3_def minus_vec3_def)
  then have c: "check_and_merge_collisions [?A, ?B] 6 = [merged ?A ?B]"
    by (rule check_two_hit)
  then have "hd (check_and_merge_collisions [?A, ?B] 6) \<in> set (check_and_merge_collisions [?A, ?B] 6)"
    by simp
  then have m3: "0 < mass (hd (check_and_merge_collisions [?A, ?B] 6))"
    using t by blast
  show ?thesis using m1 m2 m3 c by simp
qed

section \<open>Momentum\<close>

text \<open>
  The pull of body \<open>j\<close> on body \<open>i\<close>, weighted with the mass of \<open>i\<close>, is the opposite of
  the pull of \<open>i\<close> on \<open>j\<close> weighted with the mass of \<open>j\<close>; summed over all pairs, the
  weighted accelerations that the force evaluation stores cancel.
\<close>

lemma vx_sum: "vx (sum f S) = (\<Sum>i\<in>S. vx (f i))"
  and vy_sum: "vy (sum f S) = (\<Sum>i\<in>S. vy (f i))"
  and vz_sum: "vz (sum f S) = (\<Sum>i\<in>S. vz (f i))"
  by (induction S rule: infinite_finite_induct; simp)+

lemma smul_sum: "smul c (sum f S) = (\<Sum>i\<in>S. smul c (f i))"
  by (rule vec3_eqI) (simp_all add: vx_sum vy_sum vz_sum sum_distrib_left)

lemma smul_add: "smul c (u + v) = smul c u + smul c v"
  by (rule vec3_eqI) (simp_all add: algebra_simps)

lemma smul_zero [simp]: "smul c 0 = 0"
  by (rule vec3_eqI) simp_all

lemma norm3_minus_commute: "norm3 (u - v) = norm3 (v - u)"
  by (simp add: norm3_def power2_commute)

lemma self_neg_zero:
  fixes s :: vec3
  assumes "s = - s"
  shows "s = 0"
proof (rule vec3_eqI)
  have "vx s = - vx s" "vy s = - vy s" "vz s = - vz s"
    using assms by (metis vec3_components(7), metis vec3_components(8), metis vec3_components(9))
  then show "vx s = vx 0" "vy s = vy 0" "vz s = vz 0" by simp_all
qed

lemma antisymmetric_double_sum:
  fixes f :: "nat \<Rightarrow> nat \<Rightarrow> vec3"
  assumes "\<And>i j. f i j = - f j i"
  shows "(\<Sum>i<n. \<Sum>j<n. f i j) = 0"
proof -
  have "(\<Sum>i<n. \<Sum>j<n. f i j) = (\<Sum>i<n. \<Sum>j<n. - f j i)"
    by (intro sum.cong refl assms)
  also have "\<dots> = - (\<Sum>i<n. \<Sum>j<n. f j i)"
    by (simp add: sum_negf)
  also have "(\<Sum>i<n. \<Sum>j<n. f j i) = (\<Sum>i<n. \<Sum>j<n. f i j)"
    by (rule sum.swap)
  finally show ?thesis by (rule self_neg_zero)
qed

lemma pull_scalar_antisymmetric:
  fixes m1 m2 k x y d :: real
  shows "m1 * (k * m2 * (y - x) / d) = - (m2 * (k * m1 * (x - y) / d))"
  by (cases "d = 0") (simp_all add: field_simps)

lemma pull_antisymmetric:
  "smul (mass bi) (sdiv (smul (G * mass bj) (position bj - position bi))
                        (norm3 (position bj - position bi) ^ 3))
   = - smul (mass bj) (sdiv (smul (G * mass bi) (position bi - position bj))
                        (norm3 (position bi - position bj) ^ 3))"
proof -
  have n: "norm3 (position bi - position bj) = norm3 (position bj - position bi)"
    by (rule norm3_minus_commute)
  show ?thesis
    unfolding n
    by (rule vec3_eqI; simp only: vec3_components; rule pull_scalar_antisymmetric)
qed

lemma sum_list_nth_vec: 
  fixes g :: "'a \<Rightarrow> vec3"
  shows "(\<Sum>b\<leftarrow>bs. g b) = (\<Sum>i<length bs. g (bs ! i))"
proof -
  have "(\<Sum>b\<leftarrow>bs. g b) = (\<Sum>i = 0..<length (map g bs). map g bs ! i)"
    by (rule sum_list_sum_nth)
  also have "\<dots> = (\<Sum>i<length bs. g (bs ! i))"
    by (simp add: atLeast0LessThan)
  finally show ?thesis .
qed

lemma net_force_compute: "net_force (compute_gravitational_accelerations bs) = 0"
proof -
  let ?c = "\<lambda>i j. if j \<noteq> i \<and> position (bs ! j) \<noteq> position (bs ! i)
                 then sdiv (smul (G * mass (bs ! j)) (position (bs ! j) - position (bs ! i)))
                        (norm3 (position (bs ! j) - position (bs ! i)) ^ 3)
                 else 0"
  let ?w = "\<lambda>i j. smul (mass (bs ! i)) (?c i j)"
  have anti: "?w i j = - ?w j i" for i j
    using pull_antisymmetric [of "bs ! i" "bs ! j"] by auto
  have "net_force (compute_gravitational_accelerations bs)
      = (\<Sum>i<length bs. smul (mass (compute_gravitational_accelerations bs ! i))
            (acceleration (compute_gravitational_accelerations bs ! i)))"
    by (simp add: net_force_def sum_list_nth_vec)
  also have "\<dots> = (\<Sum>i<length bs. smul (mass (bs ! i)) (total_acc_of bs i))"
    by (rule sum.cong) (simp_all add: compute_nth)
  also have "\<dots> = (\<Sum>i<length bs. \<Sum>j<length bs. ?w i j)"
    by (simp only: total_acc_of_sum smul_sum)
  also have "\<dots> = 0"
    by (rule antisymmetric_double_sum) (rule anti)
  finally show ?thesis .
qed

lemma smul_left_commute: "smul a (smul b v) = smul b (smul a v)"
  by (rule vec3_eqI) simp_all

lemma net_force_verlet: "net_force (verlet_integration bs dt) = 0"
proof -
  let ?moved = "map (\<lambda>b. b\<lparr>position := position b
          + (smul dt (velocity b) + smul (dt\<^sup>2) (smul 0.5 (acceleration b)))\<rparr>) bs"
  have "net_force (verlet_integration bs dt)
      = (\<Sum>i<length bs. smul (mass (verlet_integration bs dt ! i))
            (acceleration (verlet_integration bs dt ! i)))"
    by (simp add: net_force_def sum_list_nth_vec)
  also have "\<dots> = (\<Sum>i<length bs. smul (mass (compute_gravitational_accelerations ?moved ! i))
            (acceleration (compute_gravitational_accelerations ?moved ! i)))"
    by (rule sum.cong) (simp_all add: verlet_nth compute_nth)
  also have "\<dots> = net_force (compute_gravitational_accelerations ?moved)"
    by (simp add: net_force_def sum_list_nth_vec)
  also have "\<dots> = 0" by (rule net_force_compute)
  finally show ?thesis .
qed

lemma momentum_verlet:
  "momentum (verlet_integration bs dt)
     = momentum bs + smul (0.5 * dt) (net_force bs + net_force (verlet_integration bs dt))"
proof -
  let ?r = "verlet_integration bs dt"
  have step: "smul (mass (?r ! i)) (velocity (?r ! i))
      = smul (mass (bs ! i)) (velocity (bs ! i))
        + smul (0.5 * dt) (smul (mass (bs ! i)) (acceleration (bs ! i))
             + smul (mass (?r ! i)) (acceleration (?r ! i)))"
    if "i < length bs" for i
    using that by (intro vec3_eqI) (simp_all add: verlet_nth algebra_simps)
  have "momentum ?r = (\<Sum>i<length bs. smul (mass (?r ! i)) (velocity (?r ! i)))"
    by (simp add: momentum_def sum_list_nth_vec)
  also have "\<dots> = (\<Sum>i<length bs. smul (mass (bs ! i)) (velocity (bs ! i))
        + smul (0.5 * dt) (smul (mass (bs ! i)) (acceleration (bs ! i))
             + smul (mass (?r ! i)) (acceleration (?r ! i))))"
    by (rule sum.cong) (simp_all add: step)
  also have "\<dots> = (\<Sum>i<length bs. smul (mass (bs ! i)) (velocity (bs ! i)))
        + smul (0.5 * dt) ((\<Sum>i<length bs. smul (mass (bs ! i)) (acceleration (bs ! i)))
             + (\<Sum>i<length bs. smul (mass (?r ! i)) (acceleration (?r ! i))))"
    by (simp only: sum.distrib smul_sum smul_add)
  also have "\<dots> = momentum bs + smul (0.5 * dt) (net_force bs + net_force ?r)"
    by (simp add: momentum_def net_force_def sum_list_nth_vec)
  finally show ?thesis .
qed

lemma verlet_keeps_momentum:
  "net_force bs = 0 \<Longrightarrow> momentum (verlet_integration bs dt) = momentum bs"
  by (simp add: momentum_verlet net_force_verlet)

lemma verlet_steps_invariant:
  "net_force bs = 0 \<Longrightarrow>
     net_force (((\<lambda>b. verlet_integration b dt) ^^ n) bs) = 0
     \<and> momentum (((\<lambda>b. verlet_integration b dt) ^^ n) bs) = momentum bs"
  by (induction n) (simp_all add: verlet_keeps_momentum net_force_verlet)

lemma momentum_compute: "momentum (compute_gravitational_accelerations bs) = momentum bs"
proof -
  have "map (\<lambda>b. smul (mass b) (velocity b)) (compute_gravitational_accelerations bs)
      = map (\<lambda>b. smul (mass b) (velocity b)) bs"
    by (rule nth_equalityI) (simp_all add: compute_nth)
  then show ?thesis by (simp add: momentum_def)
qed

text \<open>
  Claim C6, as amended. When the mass-weighted sum of the stored accelerations is zero,
  the total momentum is the same after any number of \<open>verlet_integration\<close> steps, for
  every \<open>dt\<close>, in exact arithmetic. The force evaluation establishes that condition, so
  the momentum is conserved from the primed store on, as the driver runs it. The weighted
  pulls of a pair are opposite.
\<close>

theorem momentum_conserved:
  "(net_force bodies = 0 \<longrightarrow>
      momentum (((\<lambda>bs. verlet_integration bs dt) ^^ n) bodies) = momentum bodies)
   \<and> momentum (((\<lambda>bs. verlet_integration bs dt) ^^ n)
         (compute_gravitational_accelerations bodies)) = momentum bodies
   \<and> smul (mass bi) (sdiv (smul (G * mass bj) (position bj - position bi))
                        (norm3 (position bj - position bi) ^ 3))
     = - smul (mass bj) (sdiv (smul (G * mass bi) (position bi - position bj))
                        (norm3 (position bi - position bj) ^ 3))"
  using verlet_steps_invariant [where bs = bodies and dt = dt and n = n]
    verlet_steps_invariant [where bs = "compute_gravitational_accelerations bodies" and dt = dt and n = n, OF net_force_compute]
    pull_antisymmetric [of bi bj]
  by (simp add: momentum_compute)

text \<open>
  The theorem at two bodies as the constructor leaves them, with zero accelerations:
  three steps keep the momentum \<open>(1, 0, 0)\<close>.
\<close>

theorem momentum_conserved_witness:
  "net_force
      [\<lparr>name = ''A'', mass = 1, position = Vec3 0 0 0, velocity = Vec3 1 0 0, acceleration = 0\<rparr>,
       \<lparr>name = ''B'', mass = 4 * 10 ^ 20, position = Vec3 2 0 0, velocity = 0, acceleration = 0\<rparr>] = 0
   \<and> momentum (((\<lambda>bs. verlet_integration bs 1) ^^ 3)
      [\<lparr>name = ''A'', mass = 1, position = Vec3 0 0 0, velocity = Vec3 1 0 0, acceleration = 0\<rparr>,
       \<lparr>name = ''B'', mass = 4 * 10 ^ 20, position = Vec3 2 0 0, velocity = 0, acceleration = 0\<rparr>])
     = Vec3 1 0 0"
proof -
  let ?bs = "[\<lparr>name = ''A'', mass = 1, position = Vec3 0 0 0, velocity = Vec3 1 0 0, acceleration = 0\<rparr>,
       \<lparr>name = ''B'', mass = 4 * 10 ^ 20, position = Vec3 2 0 0, velocity = 0, acceleration = 0\<rparr>]"
  have nf: "net_force ?bs = 0"
    by (simp add: net_force_def)
  have m: "momentum ?bs = Vec3 1 0 0"
    by (simp add: momentum_def smul_def plus_vec3_def zero_vec3_def)
  have c: "momentum (((\<lambda>bs. verlet_integration bs 1) ^^ 3) ?bs) = momentum ?bs"
    using momentum_conserved [where bodies = ?bs and dt = 1 and n = 3, THEN conjunct1] nf by blast
  show ?thesis
  proof (intro conjI)
    show "net_force ?bs = 0" by (rule nf)
    show "momentum (((\<lambda>bs. verlet_integration bs 1) ^^ 3) ?bs) = Vec3 1 0 0"
      by (rule trans [OF c m])
  qed
qed

text \<open>
  Claim C6 as stated, for every list of bodies, fails for a store whose accelerations were
  not computed from its positions: a single body at rest with a stored acceleration
  \<open>(1, 0, 0)\<close> has velocity \<open>0.5 * (1 + 0) * 1\<close> after one step with \<open>dt = 1\<close>.
\<close>

theorem momentum_unprimed_counterexample:
  "momentum (verlet_integration
      [\<lparr>name = ''A'', mass = 1, position = Vec3 0 0 0, velocity = Vec3 0 0 0,
         acceleration = Vec3 1 0 0\<rparr>] 1) = Vec3 (1 / 2) 0 0
   \<and> momentum
      [\<lparr>name = ''A'', mass = 1, position = Vec3 0 0 0, velocity = Vec3 0 0 0,
         acceleration = Vec3 1 0 0\<rparr>] = Vec3 0 0 0
   \<and> momentum (verlet_integration
      [\<lparr>name = ''A'', mass = 1, position = Vec3 0 0 0, velocity = Vec3 0 0 0,
         acceleration = Vec3 1 0 0\<rparr>] 1)
     \<noteq> momentum
      [\<lparr>name = ''A'', mass = 1, position = Vec3 0 0 0, velocity = Vec3 0 0 0,
         acceleration = Vec3 1 0 0\<rparr>]"
  unfolding momentum_verlet net_force_verlet
  by (simp add: momentum_def net_force_def smul_def plus_vec3_def zero_vec3_def)

section \<open>Zero separation\<close>

text \<open>
  With the division checked, the inner loop, the outer loop and the whole function return
  what the unchecked ones compute: the divisor \<open>r_mag ^ 3\<close> is reached only when
  \<open>r_mag\<close> is not zero.
\<close>

lemma acc_step_checked_Inr:
  "acc_step_checked bs i (Inr t) j = Inr (acc_step bs i t j)"
  by (simp add: acc_step_checked_def acc_step_def sdiv_checked_def Let_def)

lemma foldl_acc_step_checked:
  "foldl (acc_step_checked bs i) (Inr t) js = Inr (foldl (acc_step bs i) t js)"
  by (induction js arbitrary: t) (simp_all add: acc_step_checked_Inr)

lemma total_acc_checked_Inr: "total_acc_checked bs i = Inr (total_acc_of bs i)"
  by (simp add: total_acc_checked_def total_acc_of_def foldl_acc_step_checked)

lemma set_acceleration_checked_Inr:
  "set_acceleration_checked (Inr bs) i = Inr (set_acceleration bs i)"
  by (simp add: set_acceleration_checked_def set_acceleration_def total_acc_checked_Inr)

lemma foldl_set_acceleration_checked:
  "foldl set_acceleration_checked (Inr bs) is = Inr (foldl set_acceleration bs is)"
  by (induction "is" arbitrary: bs) (simp_all add: set_acceleration_checked_Inr)

text \<open>
  Claim C5. \<open>compute_gravitational_accelerations\<close> returns for every list of bodies and
  never divides by zero; a body at the position of body \<open>i\<close> leaves the running total of
  body \<open>i\<close> as it is; and the acceleration of body \<open>i\<close> is the sum of the contributions
  of the bodies at positions different from its own.
\<close>

theorem zero_separation_safe:
  "compute_gravitational_accelerations_checked bodies
     = Inr (compute_gravitational_accelerations bodies)
   \<and> (position (bodies ! j) = position (bodies ! i) \<longrightarrow>
        acc_step bodies i tot j = tot
        \<and> acc_step_checked bodies i (Inr tot) j = Inr tot)
   \<and> (i < length bodies \<longrightarrow>
        acceleration (compute_gravitational_accelerations bodies ! i) =
          (\<Sum>j \<in> {j. j < length bodies \<and> position (bodies ! j) \<noteq> position (bodies ! i)}.
             sdiv (smul (G * mass (bodies ! j)) (position (bodies ! j) - position (bodies ! i)))
               (norm3 (position (bodies ! j) - position (bodies ! i)) ^ 3)))"
proof (intro conjI impI)
  show "compute_gravitational_accelerations_checked bodies
     = Inr (compute_gravitational_accelerations bodies)"
    by (simp add: compute_gravitational_accelerations_checked_def
          compute_gravitational_accelerations_def foldl_set_acceleration_checked)
next
  assume same: "position (bodies ! j) = position (bodies ! i)"
  then show skip: "acc_step bodies i tot j = tot"
    by (simp add: acc_step_eq)
  then show "acc_step_checked bodies i (Inr tot) j = Inr tot"
    by (simp add: acc_step_checked_Inr)
next
  assume i: "i < length bodies"
  let ?f = "\<lambda>j. sdiv (smul (G * mass (bodies ! j)) (position (bodies ! j) - position (bodies ! i)))
               (norm3 (position (bodies ! j) - position (bodies ! i)) ^ 3)"
  have "acceleration (compute_gravitational_accelerations bodies ! i)
      = (\<Sum>j\<in>{..<length bodies}.
           if j \<noteq> i \<and> position (bodies ! j) \<noteq> position (bodies ! i) then ?f j else 0)"
    using i by (simp add: compute_nth total_acc_of_sum)
  also have "\<dots> = (\<Sum>j\<in>{..<length bodies}.
           if position (bodies ! j) \<noteq> position (bodies ! i) then ?f j else 0)"
    by (rule sum.cong) auto
  also have "\<dots> = (\<Sum>j \<in> {j \<in> {..<length bodies}. position (bodies ! j) \<noteq> position (bodies ! i)}. ?f j)"
    by (rule sum.inter_filter [symmetric]) simp
  also have "{j \<in> {..<length bodies}. position (bodies ! j) \<noteq> position (bodies ! i)}
      = {j. j < length bodies \<and> position (bodies ! j) \<noteq> position (bodies ! i)}"
    by auto
  finally show "acceleration (compute_gravitational_accelerations bodies ! i) =
          (\<Sum>j \<in> {j. j < length bodies \<and> position (bodies ! j) \<noteq> position (bodies ! i)}. ?f j)" .
qed

text \<open>
  The theorem at three bodies, the first two at the same point: the second is skipped in
  the loop of the first, whose acceleration is the pull of the third alone.
\<close>

theorem zero_separation_safe_witness:
  "position ([\<lparr>name = ''A'', mass = 1, position = Vec3 0 0 0, velocity = 0, acceleration = 0\<rparr>,
              \<lparr>name = ''T'', mass = 5, position = Vec3 0 0 0, velocity = 0, acceleration = 0\<rparr>,
              \<lparr>name = ''B'', mass = 4 * 10 ^ 20, position = Vec3 2 0 0, velocity = 0, acceleration = 0\<rparr>] ! 1)
     = position ([\<lparr>name = ''A'', mass = 1, position = Vec3 0 0 0, velocity = 0, acceleration = 0\<rparr>,
              \<lparr>name = ''T'', mass = 5, position = Vec3 0 0 0, velocity = 0, acceleration = 0\<rparr>,
              \<lparr>name = ''B'', mass = 4 * 10 ^ 20, position = Vec3 2 0 0, velocity = 0, acceleration = 0\<rparr>] ! 0)
   \<and> acc_step_checked
        [\<lparr>name = ''A'', mass = 1, position = Vec3 0 0 0, velocity = 0, acceleration = 0\<rparr>,
         \<lparr>name = ''T'', mass = 5, position = Vec3 0 0 0, velocity = 0, acceleration = 0\<rparr>,
         \<lparr>name = ''B'', mass = 4 * 10 ^ 20, position = Vec3 2 0 0, velocity = 0, acceleration = 0\<rparr>]
        0 (Inr (Vec3 1 2 3)) 1 = Inr (Vec3 1 2 3)
   \<and> (0::nat) < length
        [\<lparr>name = ''A'', mass = 1, position = Vec3 0 0 0, velocity = 0, acceleration = 0\<rparr>,
         \<lparr>name = ''T'', mass = 5, position = Vec3 0 0 0, velocity = 0, acceleration = 0\<rparr>,
         \<lparr>name = ''B'', mass = 4 * 10 ^ 20, position = Vec3 2 0 0, velocity = 0, acceleration = 0\<rparr>]
   \<and> acceleration (compute_gravitational_accelerations
        [\<lparr>name = ''A'', mass = 1, position = Vec3 0 0 0, velocity = 0, acceleration = 0\<rparr>,
         \<lparr>name = ''T'', mass = 5, position = Vec3 0 0 0, velocity = 0, acceleration = 0\<rparr>,
         \<lparr>name = ''B'', mass = 4 * 10 ^ 20, position = Vec3 2 0 0, velocity = 0, acceleration = 0\<rparr>] ! 0)
       = Vec3 6.6743 0 0
   \<and> (\<exists>r. compute_gravitational_accelerations_checked
        [\<lparr>name = ''A'', mass = 1, position = Vec3 0 0 0, velocity = 0, acceleration = 0\<rparr>,
         \<lparr>name = ''T'', mass = 5, position = Vec3 0 0 0, velocity = 0, acceleration = 0\<rparr>,
         \<lparr>name = ''B'', mass = 4 * 10 ^ 20, position = Vec3 2 0 0, velocity = 0, acceleration = 0\<rparr>]
       = Inr r)"
proof -
  let ?bs = "[\<lparr>name = ''A'', mass = 1, position = Vec3 0 0 0, velocity = 0, acceleration = 0\<rparr>,
         \<lparr>name = ''T'', mass = 5, position = Vec3 0 0 0, velocity = 0, acceleration = 0\<rparr>,
         \<lparr>name = ''B'', mass = 4 * 10 ^ 20, position = Vec3 2 0 0, velocity = 0, acceleration = 0\<rparr>]"
  note t = zero_separation_safe [where bodies = ?bs and i = 0 and j = 1 and tot = "Vec3 1 2 3"]
  have same: "position (?bs ! 1) = position (?bs ! 0)" by simp
  have len: "(0::nat) < length ?bs" by simp
  have skip: "acc_step_checked ?bs 0 (Inr (Vec3 1 2 3)) 1 = Inr (Vec3 1 2 3)"
    using t same by blast
  have s: "{j. j < length ?bs \<and> position (?bs ! j) \<noteq> position (?bs ! 0)} = {2}"
    by (auto simp: less_Suc_eq numeral_3_eq_3)
  have "acceleration (compute_gravitational_accelerations ?bs ! 0) =
          (\<Sum>j \<in> {j. j < length ?bs \<and> position (?bs ! j) \<noteq> position (?bs ! 0)}.
             sdiv (smul (G * mass (?bs ! j)) (position (?bs ! j) - position (?bs ! 0)))
               (norm3 (position (?bs ! j) - position (?bs ! 0)) ^ 3))"
    using t len by blast
  then have acc: "acceleration (compute_gravitational_accelerations ?bs ! 0) = Vec3 6.6743 0 0"
    unfolding s
    by (simp add: G_def norm3_def smul_def sdiv_def minus_vec3_def)
  have tot: "\<exists>r. compute_gravitational_accelerations_checked ?bs = Inr r"
    using t by blast
  show ?thesis using same skip len acc tot by blast
qed

section \<open>Snapshots\<close>

lemma snapshot_fold_distinct:
  "distinct (map fst acc) \<Longrightarrow>
     distinct (map fst (foldl (\<lambda>snap obj. AList.update (name obj)
                [vx (position obj), vy (position obj), vz (position obj)] snap) acc bs))"
  by (induction bs arbitrary: acc) (simp_all add: distinct_update)

lemma snapshot_fold_keys:
  "fst ` set (foldl (\<lambda>snap obj. AList.update (name obj)
                [vx (position obj), vy (position obj), vz (position obj)] snap) acc bs)
     = fst ` set acc \<union> name ` set bs"
  by (induction bs arbitrary: acc) (auto simp: dom_update)

lemma snapshot_fold_map_of:
  "map_of (foldl (\<lambda>snap obj. AList.update (name obj)
                [vx (position obj), vy (position obj), vz (position obj)] snap) acc bs)
     = map_of acc ++ map_of (rev (map (\<lambda>b. (name b,
                [vx (position b), vy (position b), vz (position b)])) bs))"
proof (induction bs arbitrary: acc)
  case Nil
  show ?case by simp
next
  case (Cons b bs)
  let ?e = "(name b, [vx (position b), vy (position b), vz (position b)])"
  let ?rest = "map_of (rev (map (\<lambda>b. (name b,
                [vx (position b), vy (position b), vz (position b)])) bs))"
  have "map_of (AList.update (fst ?e) (snd ?e) acc) ++ ?rest
      = (map_of acc ++ map_of [?e]) ++ ?rest"
    by (simp add: update_conv')
  also have "\<dots> = map_of acc ++ (map_of [?e] ++ ?rest)"
    by (rule map_add_assoc [symmetric])
  also have "map_of [?e] ++ ?rest = map_of (rev (map (\<lambda>b. (name b,
                [vx (position b), vy (position b), vz (position b)])) (b # bs)))"
    by (simp only: list.map rev.simps map_of_append)
  finally show ?case
    by (simp only: foldl_Cons Cons.IH fst_conv snd_conv)
qed

lemma snapshot_distinct: "distinct (map fst (snapshot bodies))"
  unfolding snapshot_def by (rule snapshot_fold_distinct) simp

lemma snapshot_keys: "fst ` set (snapshot bodies) = name ` set bodies"
  unfolding snapshot_def by (simp add: snapshot_fold_keys)

lemma snapshot_length: "length (snapshot bodies) = card (name ` set bodies)"
proof -
  have "length (snapshot bodies) = length (map fst (snapshot bodies))" by simp
  also have "\<dots> = card (set (map fst (snapshot bodies)))"
    by (rule distinct_card [symmetric]) (rule snapshot_distinct)
  also have "\<dots> = card (name ` set bodies)"
    by (simp add: snapshot_keys)
  finally show ?thesis .
qed

lemma snapshot_map_of:
  "map_of (snapshot bodies)
     = map_of (rev (map (\<lambda>b. (name b, [vx (position b), vy (position b), vz (position b)])) bodies))"
  unfolding snapshot_def by (simp add: snapshot_fold_map_of)

lemma snapshot_lookup:
  assumes "distinct (map name bodies)" "b \<in> set bodies"
  shows "map_of (snapshot bodies) (name b) = Some [vx (position b), vy (position b), vz (position b)]"
proof -
  let ?al = "rev (map (\<lambda>b. (name b, [vx (position b), vy (position b), vz (position b)])) bodies)"
  have "map fst ?al = rev (map name bodies)"
    by (simp add: rev_map comp_def)
  then have "distinct (map fst ?al)" using assms(1) by simp
  moreover have "(name b, [vx (position b), vy (position b), vz (position b)]) \<in> set ?al"
    using assms(2) by auto
  ultimately show ?thesis
    unfolding snapshot_map_of by (rule map_of_is_SomeI)
qed

text \<open>
  Claim C7, as amended. The keys of a snapshot are unique and are the names present in the
  store; the snapshot has one entry for each distinct name, which maps the name to the
  three coordinates of the last body of the store that bears it. When the names in the
  store are pairwise distinct, the snapshot has as many entries as the store has bodies
  and maps the name of every body to the position of that body.
\<close>

theorem snapshot_entries:
  "distinct (map fst (snapshot bodies))
   \<and> fst ` set (snapshot bodies) = name ` set bodies
   \<and> length (snapshot bodies) = card (name ` set bodies)
   \<and> map_of (snapshot bodies)
       = map_of (rev (map (\<lambda>b. (name b, [vx (position b), vy (position b), vz (position b)])) bodies))
   \<and> (distinct (map name bodies) \<longrightarrow>
        length (snapshot bodies) = length bodies
        \<and> (\<forall>b \<in> set bodies. map_of (snapshot bodies) (name b)
               = Some [vx (position b), vy (position b), vz (position b)]))"
proof -
  have "length (snapshot bodies) = length bodies" if "distinct (map name bodies)"
  proof -
    have "card (name ` set bodies) = card (set (map name bodies))" by simp
    also have "\<dots> = length (map name bodies)" using that by (rule distinct_card)
    finally show ?thesis by (simp add: snapshot_length)
  qed
  then show ?thesis
    by (intro conjI impI ballI snapshot_distinct snapshot_keys snapshot_length
          snapshot_map_of snapshot_lookup)
qed

text \<open>The theorem at a store of two bodies with different names.\<close>

theorem snapshot_entries_witness:
  "distinct (map name
      [\<lparr>name = ''A'', mass = 1, position = Vec3 0 0 0, velocity = 0, acceleration = 0\<rparr>,
       \<lparr>name = ''B'', mass = 1, position = Vec3 9 0 0, velocity = 0, acceleration = 0\<rparr>])
   \<and> length (snapshot
      [\<lparr>name = ''A'', mass = 1, position = Vec3 0 0 0, velocity = 0, acceleration = 0\<rparr>,
       \<lparr>name = ''B'', mass = 1, position = Vec3 9 0 0, velocity = 0, acceleration = 0\<rparr>]) = 2
   \<and> map_of (snapshot
      [\<lparr>name = ''A'', mass = 1, position = Vec3 0 0 0, velocity = 0, acceleration = 0\<rparr>,
       \<lparr>name = ''B'', mass = 1, position = Vec3 9 0 0, velocity = 0, acceleration = 0\<rparr>]) ''B''
     = Some [9, 0, 0]"
proof -
  let ?A = "\<lparr>name = ''A'', mass = 1, position = Vec3 0 0 0, velocity = 0, acceleration = 0\<rparr>"
  let ?B = "\<lparr>name = ''B'', mass = 1, position = Vec3 9 0 0, velocity = 0, acceleration = 0\<rparr>"
  have d: "distinct (map name [?A, ?B])" by simp
  note t = snapshot_entries [of "[?A, ?B]"]
  have l: "length (snapshot [?A, ?B]) = length [?A, ?B]"
    using t d by blast
  have "?B \<in> set [?A, ?B]" by simp
  then have "map_of (snapshot [?A, ?B]) (name ?B)
      = Some [vx (position ?B), vy (position ?B), vz (position ?B)]"
    using t d by blast
  then show ?thesis using d l by simp
qed

text \<open>
  Claim C7 as stated, one entry per body whatever the names, fails for two bodies of the
  same name: the second assignment replaces the entry of the first, and the snapshot of a
  store of two bodies has one key.
\<close>

theorem snapshot_duplicate_name_counterexample:
  "snapshot [\<lparr>name = ''A'', mass = 1, position = Vec3 0 0 0, velocity = 0, acceleration = 0\<rparr>,
             \<lparr>name = ''A'', mass = 1, position = Vec3 9 0 0, velocity = 0, acceleration = 0\<rparr>]
     = [(''A'', [9, 0, 0])]
   \<and> length (snapshot
            [\<lparr>name = ''A'', mass = 1, position = Vec3 0 0 0, velocity = 0, acceleration = 0\<rparr>,
             \<lparr>name = ''A'', mass = 1, position = Vec3 9 0 0, velocity = 0, acceleration = 0\<rparr>])
     \<noteq> length [\<lparr>name = ''A'', mass = 1, position = Vec3 0 0 0, velocity = 0, acceleration = 0\<rparr>,
             \<lparr>name = ''A'', mass = 1, position = Vec3 9 0 0, velocity = 0, acceleration = 0\<rparr>]"
  by (simp add: snapshot_def)

section \<open>The manual provider: results\<close>













end
